theory Spec2Isabelle
  imports Complex_Main "HOL-Library.Sublist"
begin

section \<open>Numbers\<close>

text \<open>
  The TypeScript sources compute with the type \<open>number\<close>. Throughout this development a
  \<open>number\<close> is an exact rational: timestamps in milliseconds, confidences, coordinates and
  scores are of type \<^typ>\<open>rat\<close>, so rounding, overflow and the not-a-number value of
  the machine representation are outside the model.
\<close>

type_synonym number = rat

section \<open>Person tracker (lib/grocery-shoplift/tracking.ts)\<close>

record Bbox =
  x1 :: number
  y1 :: number
  x2 :: number
  y2 :: number

definition IOU_THRESHOLD :: number where
  "IOU_THRESHOLD = 3 / 10"

definition MAX_BBOX_HISTORY :: nat where
  "MAX_BBOX_HISTORY = 10"

definition iou :: "Bbox \<Rightarrow> Bbox \<Rightarrow> number" where
  "iou a b =
     (let xi1 = max (x1 a) (x1 b);
          yi1 = max (y1 a) (y1 b);
          xi2 = min (x2 a) (x2 b);
          yi2 = min (y2 a) (y2 b);
          interW = max 0 (xi2 - xi1);
          interH = max 0 (yi2 - yi1);
          inter = interW * interH;
          areaA = (x2 a - x1 a) * (y2 a - y1 a);
          areaB = (x2 b - x1 b) * (y2 b - y1 b);
          union = areaA + areaB - inter
      in if union \<le> 0 then 0 else inter / union)"

text \<open>
  Two boxes are disjoint when their intersection rectangle has no width or no height,
  that is, when the overlapping area is zero.
\<close>

definition bbox_disjoint :: "Bbox \<Rightarrow> Bbox \<Rightarrow> bool" where
  "bbox_disjoint a b \<longleftrightarrow>
     min (x2 a) (x2 b) \<le> max (x1 a) (x1 b) \<or> min (y2 a) (y2 b) \<le> max (y1 a) (y1 b)"


record PersonDetection =
  bbox :: Bbox
  confidence :: number

record TrackedPerson = PersonDetection +
  track_id :: string
  bbox_history :: "Bbox list"
  last_seen :: number
  first_seen :: number

text \<open>
  \<open>activeTracks\<close> is a JavaScript \<open>Map\<close>: iteration follows insertion order, and
  \<open>set\<close> on an existing key replaces the value in place. It is an association list with
  \<open>map_set\<close> as its only writer.
\<close>

fun map_set :: "'k \<Rightarrow> 'v \<Rightarrow> ('k \<times> 'v) list \<Rightarrow> ('k \<times> 'v) list" where
  "map_set k v [] = [(k, v)]"
| "map_set k v ((k', v') # kvs) =
     (if k' = k then (k, v) # kvs else (k', v') # map_set k v kvs)"

definition map_values :: "('k \<times> 'v) list \<Rightarrow> 'v list" where
  "map_values kvs = map snd kvs"

record TrackerState =
  activeTracks :: "(string \<times> TrackedPerson) list"
  nextTrackId :: nat

text \<open>Decimal rendering of a counter, as a template literal prints it.\<close>

definition digit_char :: "nat \<Rightarrow> char" where
  "digit_char d = ''0123456789'' ! d"

fun decimal :: "nat \<Rightarrow> string" where
  "decimal n =
     (if n < 10 then [digit_char n] else decimal (n div 10) @ [digit_char (n mod 10)])"

declare decimal.simps [simp del]

text \<open>\<open>xs.slice(-n)\<close>: the last \<open>n\<close> elements, or all of them when there are fewer.\<close>

definition slice_last :: "nat \<Rightarrow> 'a list \<Rightarrow> 'a list" where
  "slice_last n xs = drop (length xs - n) xs"

text \<open>
  The inner loop of \<open>updateTracks\<close>: it walks the snapshot of the active tracks, skips
  the ones already matched in this frame, and keeps the first track whose score is strictly
  above the best score so far, which starts at the threshold.
\<close>

fun bestTrackLoop ::
  "string set \<Rightarrow> Bbox \<Rightarrow> TrackedPerson list \<Rightarrow> TrackedPerson option \<times> number
     \<Rightarrow> TrackedPerson option \<times> number" where
  "bestTrackLoop matched d [] acc = acc"
| "bestTrackLoop matched d (track # rest) (bestTrack, bestIou) =
     (if track_id track \<in> matched then bestTrackLoop matched d rest (bestTrack, bestIou)
      else
        let score = iou (bbox track) d
        in if score > bestIou then bestTrackLoop matched d rest (Some track, score)
           else bestTrackLoop matched d rest (bestTrack, bestIou))"

definition findBestTrack :: "string set \<Rightarrow> TrackerState \<Rightarrow> Bbox \<Rightarrow> TrackedPerson option" where
  "findBestTrack matched st d =
     fst (bestTrackLoop matched d (map_values (activeTracks st)) (None, IOU_THRESHOLD))"

text \<open>
  One iteration of the outer loop: the state is the set of matched ids, the result list
  and the tracker's store.
\<close>

definition trackStep ::
  "number \<Rightarrow> PersonDetection \<Rightarrow> string set \<times> TrackedPerson list \<times> TrackerState
     \<Rightarrow> string set \<times> TrackedPerson list \<times> TrackerState" where
  "trackStep nowMs det s =
     (case s of (matched, result, st) \<Rightarrow>
        (case findBestTrack matched st (bbox det) of
           Some bestTrack \<Rightarrow>
             let history = slice_last MAX_BBOX_HISTORY (bbox_history bestTrack @ [bbox det]);
                 updated = \<lparr> bbox = bbox det, confidence = confidence det,
                             track_id = track_id bestTrack, bbox_history = history,
                             last_seen = nowMs, first_seen = first_seen bestTrack \<rparr>
             in (insert (track_id bestTrack) matched, result @ [updated],
                 st \<lparr> activeTracks := map_set (track_id bestTrack) updated (activeTracks st) \<rparr>)
         | None \<Rightarrow>
             let trackId = ''t'' @ decimal (nextTrackId st);
                 newTrack = \<lparr> bbox = bbox det, confidence = confidence det,
                              track_id = trackId, bbox_history = [bbox det],
                              last_seen = nowMs, first_seen = nowMs \<rparr>
             in (matched, result @ [newTrack],
                 st \<lparr> activeTracks := map_set trackId newTrack (activeTracks st),
                      nextTrackId := nextTrackId st + 1 \<rparr>)))"

fun trackLoop ::
  "number \<Rightarrow> PersonDetection list \<Rightarrow> string set \<times> TrackedPerson list \<times> TrackerState
     \<Rightarrow> string set \<times> TrackedPerson list \<times> TrackerState" where
  "trackLoop nowMs [] s = s"
| "trackLoop nowMs (det # dets) s = trackLoop nowMs dets (trackStep nowMs det s)"

text \<open>
  \<open>updateTracks(detections, nowMs = Date.now())\<close>: the second argument is optional and
  the clock is read when it is absent. The function returns the per-frame list and leaves
  the store updated.
\<close>

definition updateTracks ::
  "number \<Rightarrow> PersonDetection list \<Rightarrow> number option \<Rightarrow> TrackerState
     \<Rightarrow> TrackedPerson list \<times> TrackerState" where
  "updateTracks date_now detections nowMs_arg st =
     (let nowMs = (case nowMs_arg of Some t \<Rightarrow> t | None \<Rightarrow> date_now)
      in case trackLoop nowMs detections ({}, [], st) of
           (matched, result, st') \<Rightarrow> (result, st'))"

definition resetTracks :: TrackerState where
  "resetTracks = \<lparr> activeTracks = [], nextTrackId = 1 \<rparr>"

definition getActiveTracks :: "TrackerState \<Rightarrow> TrackedPerson list" where
  "getActiveTracks st = map_values (activeTracks st)"

record Point =
  pt_x :: number
  pt_y :: number

definition bboxCenter :: "Bbox \<Rightarrow> number option \<Rightarrow> number option \<Rightarrow> Point" where
  "bboxCenter box frameWidth frameHeight =
     (let x = (x1 box + x2 box) / 2;
          y = (y1 box + y2 box) / 2
      in case (frameWidth, frameHeight) of
           (Some w, Some h) \<Rightarrow> \<lparr> pt_x = x / w, pt_y = y / h \<rparr>
         | _ \<Rightarrow> \<lparr> pt_x = x, pt_y = y \<rparr>)"

definition bboxTorsoRatio :: "Bbox \<Rightarrow> number" where
  "bboxTorsoRatio box =
     (let w = x2 box - x1 box;
          h = y2 box - y1 box
      in if h \<le> 0 then 0 else w / h)"


section \<open>Environment variables\<close>

text \<open>
  Every threshold is read from \<open>process.env\<close> with the same pattern: the variable may be
  undefined or empty (the default applies), or \<open>Number(v)\<close> converts it, to a finite
  number or not.
\<close>

datatype env_value = EnvUndefined | EnvEmpty | EnvNumber number | EnvNotFinite

text \<open>
  \<open>v === undefined || v === "" ? dflt : (Number.isFinite(n) && ok n ? n : dflt)\<close>
\<close>

definition env_number :: "env_value \<Rightarrow> (number \<Rightarrow> bool) \<Rightarrow> number \<Rightarrow> number" where
  "env_number v ok dflt =
     (case v of
        EnvUndefined \<Rightarrow> dflt
      | EnvEmpty \<Rightarrow> dflt
      | EnvNumber n \<Rightarrow> if ok n then n else dflt
      | EnvNotFinite \<Rightarrow> dflt)"

section \<open>Suspicion engine (lib/grocery-shoplift/suspicion.ts)\<close>

text \<open>
  Modelled from the spec: the type declarations of lib/grocery-shoplift/types.ts
  (\<open>ZoneType\<close>, \<open>ZoneConfig\<close>, \<open>SuspicionInput\<close>, \<open>SuspicionResult\<close>) are not among the
  sources; the zone types are the ones the data model lists, and the records have the
  fields that \<open>computeSuspicion\<close> reads and writes. \<open>enabled\<close> is optional: the code tests
  \<open>z.enabled === false\<close>.
\<close>

datatype ZoneType = entrance | exit | checkout | high_theft | staff_only | general

record ZoneConfig =
  zone_cfg_id :: string
  zone_cfg_name :: string
  zone_cfg_type :: ZoneType
  polygon :: "Point list"
  enabled :: "bool option"

record ZoneVisit =
  zone_id :: string
  zone_type :: ZoneType
  entered_ms :: number

record SuspicionInput =
  track :: TrackedPerson
  zones :: "ZoneConfig list"
  zone_history :: "ZoneVisit list"
  now_ms :: number

record SuspicionResult =
  suspicion_score :: number
  reasons :: "string list"
  exit_without_checkout :: bool
  dwell_high_theft_sec :: number
  torso_ratio_spike :: bool

record SuspicionEnv =
  SHOPLIFT_ESCALATE_SCORE :: env_value
  SHOPLIFT_DWELL_SECONDS :: env_value
  SHOPLIFT_CHECKOUT_MEMORY_SECONDS :: env_value

definition DEFAULT_ESCALATE_SCORE :: number where "DEFAULT_ESCALATE_SCORE = 70"
definition DEFAULT_DWELL_SECONDS :: number where "DEFAULT_DWELL_SECONDS = 12"
definition DEFAULT_CHECKOUT_MEMORY_SECONDS :: number where "DEFAULT_CHECKOUT_MEMORY_SECONDS = 60"
definition EXIT_WITHOUT_CHECKOUT_BONUS :: number where "EXIT_WITHOUT_CHECKOUT_BONUS = 40"
definition DWELL_HIGH_THEFT_BONUS :: number where "DWELL_HIGH_THEFT_BONUS = 25"
definition TORSO_RATIO_SPIKE_BONUS :: number where "TORSO_RATIO_SPIKE_BONUS = 20"
definition TORSO_RATIO_WINDOW :: nat where "TORSO_RATIO_WINDOW = 5"
definition TORSO_SPIKE_RATIO :: number where "TORSO_SPIKE_RATIO = 1 / 4"

definition getEscalateScore :: "SuspicionEnv \<Rightarrow> number" where
  "getEscalateScore env =
     env_number (SHOPLIFT_ESCALATE_SCORE env) (\<lambda>n. n \<ge> 0 \<and> n \<le> 100) DEFAULT_ESCALATE_SCORE"

definition getDwellSeconds :: "SuspicionEnv \<Rightarrow> number" where
  "getDwellSeconds env =
     env_number (SHOPLIFT_DWELL_SECONDS env) (\<lambda>n. n \<ge> 0) DEFAULT_DWELL_SECONDS"

definition getCheckoutMemorySeconds :: "SuspicionEnv \<Rightarrow> number" where
  "getCheckoutMemorySeconds env =
     env_number (SHOPLIFT_CHECKOUT_MEMORY_SECONDS env) (\<lambda>n. n \<ge> 0)
       DEFAULT_CHECKOUT_MEMORY_SECONDS"

definition default_suspicion_env :: SuspicionEnv where
  "default_suspicion_env =
     \<lparr> SHOPLIFT_ESCALATE_SCORE = EnvUndefined, SHOPLIFT_DWELL_SECONDS = EnvUndefined,
       SHOPLIFT_CHECKOUT_MEMORY_SECONDS = EnvUndefined \<rparr>"

text \<open>
  Ray casting. The loop \<open>for (i = 0, j = n - 1; i < n; j = i++)\<close> carries the flag and the
  index \<open>j\<close> of the previous vertex. The quotient is only evaluated when the two
  \<open>y\<close> coordinates lie on different sides of the point, so its divisor is not zero.
\<close>

definition edge_crossed :: "Point \<Rightarrow> Point \<Rightarrow> Point \<Rightarrow> bool" where
  "edge_crossed p vi vj =
     (let xi = pt_x vi; yi = pt_y vi; xj = pt_x vj; yj = pt_y vj
      in ((yi > pt_y p) \<noteq> (yj > pt_y p)) \<and>
         (pt_x p < (xj - xi) * (pt_y p - yi) / (yj - yi) + xi))"

definition isPointInPolygon :: "Point \<Rightarrow> Point list \<Rightarrow> bool" where
  "isPointInPolygon p poly =
     (if length poly < 3 then False
      else fst (fold (\<lambda>i (inside, j).
                  (if edge_crossed p (poly ! i) (poly ! j) then \<not> inside else inside, i))
                [0 ..< length poly] (False, length poly - 1)))"

fun whichZone :: "Point \<Rightarrow> ZoneConfig list \<Rightarrow> ZoneConfig option" where
  "whichZone point [] = None"
| "whichZone point (z # zs) =
     (if enabled z = Some False then whichZone point zs
      else if isPointInPolygon point (polygon z) then Some z
      else whichZone point zs)"

text \<open>
  \<open>Number.prototype.toFixed(0)\<close>: the sign, then the nearest integer to the magnitude, the
  larger one on a tie, in decimal. (Magnitudes of \<open>1e21\<close> and more, which print in
  exponent notation, are not modelled.)
\<close>

definition toFixed0 :: "number \<Rightarrow> string" where
  "toFixed0 v =
     (if v < 0 then ''-'' @ decimal (nat \<lfloor>- v + 1 / 2\<rfloor>)
      else decimal (nat \<lfloor>v + 1 / 2\<rfloor>))"

text \<open>\<open>Math.round\<close>: the nearest integer, a tie going up.\<close>

definition Math_round :: "number \<Rightarrow> number" where
  "Math_round v = of_int \<lfloor>v + 1 / 2\<rfloor>"

text \<open>
  The loop that accumulates the dwell time: a visit counts when its type is
  \<open>high_theft\<close> and \<open>highTheftZones.find(z => z.id === h.zone_id)\<close> finds a zone.
\<close>

fun dwellLoop :: "ZoneConfig list \<Rightarrow> number \<Rightarrow> ZoneVisit list \<Rightarrow> number \<Rightarrow> number" where
  "dwellLoop highTheftZones now [] acc = acc"
| "dwellLoop highTheftZones now (h # hs) acc =
     (if zone_type h \<noteq> high_theft then dwellLoop highTheftZones now hs acc
      else case find (\<lambda>z. zone_cfg_id z = zone_id h) highTheftZones of
             None \<Rightarrow> dwellLoop highTheftZones now hs acc
           | Some zone \<Rightarrow> dwellLoop highTheftZones now hs (acc + (now - entered_ms h) / 1000))"

text \<open>
  The three blocks of \<open>computeSuspicion\<close>, in the order of the source. \<open>exitTerm\<close> is
  the condition under which the first block sets \<open>exit_without_checkout\<close>, \<open>dwellRaw\<close> the
  value of \<open>dwell_high_theft_sec\<close> after the loop of the second block, and \<open>torsoTerm\<close> the
  condition under which the third block sets \<open>torso_ratio_spike\<close>. \<open>computeSuspicion\<close>
  itself adds the bonuses and pushes the reasons.
\<close>

definition exitTerm :: "SuspicionEnv \<Rightarrow> SuspicionInput \<Rightarrow> ZoneConfig option \<Rightarrow> bool" where
  "exitTerm env input currentZone =
     (let exitZone = find (\<lambda>z. zone_cfg_type z = exit \<and> enabled z \<noteq> Some False) (zones input)
      in case exitZone of
           None \<Rightarrow> False
         | Some ez \<Rightarrow>
             (case currentZone of
                None \<Rightarrow> False
              | Some cz \<Rightarrow>
                  if zone_cfg_id cz = zone_cfg_id ez then
                    let cutoff = now_ms input - getCheckoutMemorySeconds env * 1000;
                        enteredCheckout =
                          list_ex (\<lambda>h. zone_type h = checkout \<and> entered_ms h \<ge> cutoff)
                            (zone_history input)
                    in \<not> enteredCheckout
                  else False))"

definition dwellRaw :: "SuspicionInput \<Rightarrow> number" where
  "dwellRaw input =
     (let highTheftZones =
            filter (\<lambda>z. zone_cfg_type z = high_theft \<and> enabled z \<noteq> Some False) (zones input)
      in dwellLoop highTheftZones (now_ms input) (zone_history input) 0)"

definition torsoTerm :: "SuspicionInput \<Rightarrow> bool" where
  "torsoTerm input =
     (let history = bbox_history (track input)
      in if length history \<ge> TORSO_RATIO_WINDOW then
           let recent = slice_last TORSO_RATIO_WINDOW history;
               ratios = map bboxTorsoRatio recent;
               mean = fold (\<lambda>b a. a + b) ratios 0 / of_nat (length ratios);
               lastr = ratios ! (length ratios - 1)
           in \<bar>lastr - mean\<bar> \<ge> TORSO_SPIKE_RATIO
         else False)"

definition computeSuspicion ::
  "SuspicionEnv \<Rightarrow> SuspicionInput \<Rightarrow> number option \<Rightarrow> number option \<Rightarrow> SuspicionResult" where
  "computeSuspicion env input frameWidth frameHeight =
     (let dwellSec = getDwellSeconds env;
          center = bboxCenter (bbox (track input)) frameWidth frameHeight;
          currentZone = whichZone center (zones input);
          ewc = exitTerm env input currentZone;
          (score1, reasons1) =
            (if ewc then (0 + EXIT_WITHOUT_CHECKOUT_BONUS, [''exit_without_checkout''])
             else (0, []));
          dwell = dwellRaw input;
          (score2, reasons2) =
            (if dwell \<ge> dwellSec
             then (score1 + DWELL_HIGH_THEFT_BONUS,
                   reasons1 @ [''dwell_high_theft_'' @ toFixed0 dwell @ ''s''])
             else (score1, reasons1));
          spike = torsoTerm input;
          (score3, reasons3) =
            (if spike then (score2 + TORSO_RATIO_SPIKE_BONUS, reasons2 @ [''torso_ratio_spike''])
             else (score2, reasons2))
      in \<lparr> suspicion_score = min 100 score3,
           reasons = reasons3,
           exit_without_checkout = ewc,
           dwell_high_theft_sec = Math_round (dwell * 10) / 10,
           torso_ratio_spike = spike \<rparr>)"

definition shouldEscalate :: "SuspicionEnv \<Rightarrow> SuspicionResult \<Rightarrow> bool" where
  "shouldEscalate env result \<longleftrightarrow> suspicion_score result \<ge> getEscalateScore env"

section \<open>Alert gate of the tracking pipeline (lib/grocery-shoplift/gate.ts)\<close>

definition DEFAULT_CAMERA_COOLDOWN :: number where "DEFAULT_CAMERA_COOLDOWN = 20"
definition DEFAULT_TRACK_COOLDOWN :: number where "DEFAULT_TRACK_COOLDOWN = 30"
definition DEFAULT_JUDGE_MIN_CONFIDENCE :: number where "DEFAULT_JUDGE_MIN_CONFIDENCE = 7 / 10"

record GateEnv =
  SHOPLIFT_CAMERA_COOLDOWN_SECONDS :: env_value
  SHOPLIFT_TRACK_COOLDOWN_SECONDS :: env_value
  SHOPLIFT_JUDGE_MIN_CONFIDENCE :: env_value

definition default_gate_env :: GateEnv where
  "default_gate_env =
     \<lparr> SHOPLIFT_CAMERA_COOLDOWN_SECONDS = EnvUndefined,
       SHOPLIFT_TRACK_COOLDOWN_SECONDS = EnvUndefined,
       SHOPLIFT_JUDGE_MIN_CONFIDENCE = EnvUndefined \<rparr>"

definition getCameraCooldown :: "GateEnv \<Rightarrow> number" where
  "getCameraCooldown env =
     env_number (SHOPLIFT_CAMERA_COOLDOWN_SECONDS env) (\<lambda>n. n \<ge> 0) DEFAULT_CAMERA_COOLDOWN"

definition getTrackCooldown :: "GateEnv \<Rightarrow> number" where
  "getTrackCooldown env =
     env_number (SHOPLIFT_TRACK_COOLDOWN_SECONDS env) (\<lambda>n. n \<ge> 0) DEFAULT_TRACK_COOLDOWN"

definition getJudgeMinConfidence :: "GateEnv \<Rightarrow> number" where
  "getJudgeMinConfidence env =
     env_number (SHOPLIFT_JUDGE_MIN_CONFIDENCE env) (\<lambda>n. n \<ge> 0 \<and> n \<le> 1)
       DEFAULT_JUDGE_MIN_CONFIDENCE"

text \<open>The two module-level maps of the gate.\<close>

record GateState =
  lastTriggerByCamera :: "string \<rightharpoonup> number"
  lastTriggerByTrack :: "string \<rightharpoonup> number"

datatype GateReason = below_confidence | camera_cooldown | track_cooldown

datatype GateDecision = Allow | Reject GateReason

text \<open>
  The fields of \<open>GateInput\<close> are \<open>camera_id\<close>, \<open>track_id\<close>, \<open>judge_confidence_0_1\<close> and the
  optional \<open>now_ms\<close>; they carry a prefix here because other records have fields of the
  same names.
\<close>

record GateInput =
  gi_camera_id :: string
  gi_track_id :: string
  gi_judge_confidence_0_1 :: number
  gi_now_ms :: "number option"

definition alertGate ::
  "GateEnv \<Rightarrow> number \<Rightarrow> GateInput \<Rightarrow> GateState \<Rightarrow> GateDecision \<times> GateState" where
  "alertGate env date_now input st =
     (let now = (case gi_now_ms input of Some t \<Rightarrow> t | None \<Rightarrow> date_now);
          minConf = getJudgeMinConfidence env
      in if gi_judge_confidence_0_1 input < minConf then (Reject below_confidence, st)
         else
           let camCooldown = getCameraCooldown env * 1000;
               trackCooldown = getTrackCooldown env * 1000;
               lastCam = lastTriggerByCamera st (gi_camera_id input)
           in if (case lastCam of Some l \<Rightarrow> now - l < camCooldown | None \<Rightarrow> False)
              then (Reject camera_cooldown, st)
              else
                let lastTrack = lastTriggerByTrack st (gi_track_id input)
                in if (case lastTrack of Some l \<Rightarrow> now - l < trackCooldown | None \<Rightarrow> False)
                   then (Reject track_cooldown, st)
                   else (Allow,
                         st \<lparr> lastTriggerByCamera :=
                                (lastTriggerByCamera st)(gi_camera_id input \<mapsto> now),
                              lastTriggerByTrack :=
                                (lastTriggerByTrack st)(gi_track_id input \<mapsto> now) \<rparr>))"

definition resetGate :: GateState where
  "resetGate = \<lparr> lastTriggerByCamera = Map.empty, lastTriggerByTrack = Map.empty \<rparr>"

text \<open>
  A sequence of calls, each on the state the previous one left, with the clock reading at
  each call: the decisions, in order.
\<close>

fun gate_run :: "GateEnv \<Rightarrow> (number \<times> GateInput) list \<Rightarrow> GateState \<Rightarrow> GateDecision list" where
  "gate_run env [] st = []"
| "gate_run env ((clock, input) # rest) st =
     (case alertGate env clock input st of (d, st') \<Rightarrow> d # gate_run env rest st')"

section \<open>Alert gate of the event pipeline (lib/shoplift-alerts/alert-gate.ts)\<close>

text \<open>
  The canonical event of lib/shoplift-alerts/types.ts. Its fields \<open>camera_id\<close> and
  \<open>confidence\<close> carry a prefix for the same reason as above; the constant
  \<open>event_type\<close> and the optional evidence play no part in the gate and are left out.
\<close>

record ShopliftingEvent =
  ev_camera_id :: string
  location :: string
  ev_confidence :: number
  timestamp :: string

definition DEFAULT_MIN_CONFIDENCE :: number where "DEFAULT_MIN_CONFIDENCE = 3 / 4"
definition DEFAULT_COOLDOWN_SECONDS :: number where "DEFAULT_COOLDOWN_SECONDS = 20"
definition DEFAULT_PERSISTENCE_COUNT :: number where "DEFAULT_PERSISTENCE_COUNT = 2"
definition DEFAULT_PERSISTENCE_WINDOW_MS :: number where "DEFAULT_PERSISTENCE_WINDOW_MS = 1000"

record AlertGateEnv =
  SHOPLIFT_MIN_CONFIDENCE :: env_value
  SHOPLIFT_COOLDOWN_SECONDS :: env_value
  SHOPLIFT_PERSISTENCE_COUNT :: env_value
  SHOPLIFT_PERSISTENCE_WINDOW_MS :: env_value

definition default_alert_gate_env :: AlertGateEnv where
  "default_alert_gate_env =
     \<lparr> SHOPLIFT_MIN_CONFIDENCE = EnvUndefined, SHOPLIFT_COOLDOWN_SECONDS = EnvUndefined,
       SHOPLIFT_PERSISTENCE_COUNT = EnvUndefined,
       SHOPLIFT_PERSISTENCE_WINDOW_MS = EnvUndefined \<rparr>"

definition getMinConfidence :: "AlertGateEnv \<Rightarrow> number" where
  "getMinConfidence env =
     env_number (SHOPLIFT_MIN_CONFIDENCE env) (\<lambda>n. n \<ge> 0 \<and> n \<le> 1) DEFAULT_MIN_CONFIDENCE"

definition getCooldownSeconds :: "AlertGateEnv \<Rightarrow> number" where
  "getCooldownSeconds env =
     env_number (SHOPLIFT_COOLDOWN_SECONDS env) (\<lambda>n. n \<ge> 0) DEFAULT_COOLDOWN_SECONDS"

definition getPersistenceCount :: "AlertGateEnv \<Rightarrow> number" where
  "getPersistenceCount env =
     env_number (SHOPLIFT_PERSISTENCE_COUNT env) (\<lambda>n. n \<ge> 1) DEFAULT_PERSISTENCE_COUNT"

definition getPersistenceWindowMs :: "AlertGateEnv \<Rightarrow> number" where
  "getPersistenceWindowMs env =
     env_number (SHOPLIFT_PERSISTENCE_WINDOW_MS env) (\<lambda>n. n \<ge> 0)
       DEFAULT_PERSISTENCE_WINDOW_MS"

record AlertGateState =
  ag_lastTriggerByCamera :: "string \<rightharpoonup> number"
  recentEventsByCamera :: "string \<rightharpoonup> number list"

datatype AlertGateReason = below_threshold | cooldown | persistence_not_met

datatype GateResult = Allowed ShopliftingEvent | NotAllowed AlertGateReason ShopliftingEvent

text \<open>
  This gate always reads the clock (\<open>Date.now()\<close>), and its persistence rule writes the
  buffer of recent events before it decides.
\<close>

definition alertGate_event ::
  "AlertGateEnv \<Rightarrow> number \<Rightarrow> ShopliftingEvent \<Rightarrow> AlertGateState \<Rightarrow> GateResult \<times> AlertGateState" where
  "alertGate_event env date_now event st =
     (let minConf = getMinConfidence env
      in if ev_confidence event < minConf then (NotAllowed below_threshold event, st)
         else
           let cooldownSec = getCooldownSeconds env;
               nowMs = date_now;
               lastT = ag_lastTriggerByCamera st (ev_camera_id event)
           in if (case lastT of Some l \<Rightarrow> nowMs - l < cooldownSec * 1000 | None \<Rightarrow> False)
              then (NotAllowed cooldown event, st)
              else
                let persistenceCount = getPersistenceCount env;
                    persistenceWindowMs = getPersistenceWindowMs env
                in if persistenceCount > 1 \<and> persistenceWindowMs > 0 then
                     let recent = (case recentEventsByCamera st (ev_camera_id event) of
                                     Some r \<Rightarrow> r | None \<Rightarrow> []);
                         windowStart = nowMs - persistenceWindowMs;
                         inWindow = filter (\<lambda>t. t \<ge> windowStart) recent @ [nowMs];
                         st1 = st \<lparr> recentEventsByCamera :=
                                      (recentEventsByCamera st)
                                        (ev_camera_id event \<mapsto> slice_last 10 inWindow) \<rparr>
                     in if of_nat (length inWindow) < persistenceCount
                        then (NotAllowed persistence_not_met event, st1)
                        else (Allowed event,
                              st1 \<lparr> ag_lastTriggerByCamera :=
                                      (ag_lastTriggerByCamera st1)(ev_camera_id event \<mapsto> nowMs) \<rparr>)
                   else (Allowed event,
                         st \<lparr> ag_lastTriggerByCamera :=
                                (ag_lastTriggerByCamera st)(ev_camera_id event \<mapsto> nowMs) \<rparr>))"

definition resetAlertGate :: AlertGateState where
  "resetAlertGate = \<lparr> ag_lastTriggerByCamera = Map.empty, recentEventsByCamera = Map.empty \<rparr>"

text \<open>A sequence of events with the clock reading at each call: the results, in order.\<close>

fun alert_gate_run ::
  "AlertGateEnv \<Rightarrow> (number \<times> ShopliftingEvent) list \<Rightarrow> AlertGateState \<Rightarrow> GateResult list" where
  "alert_gate_run env [] st = []"
| "alert_gate_run env ((clock, event) # rest) st =
     (case alertGate_event env clock event st of (r, st') \<Rightarrow> r # alert_gate_run env rest st')"

section \<open>Concealment judge\<close>

record ConcealmentJudgeInput =
  framePaths :: "string list"
  cj_location :: string
  cameraId :: string
  suspicionScore :: number
  suspicionReasons :: "string list"
  exitWithoutCheckout :: bool
  torsoRatioSpike :: bool

datatype RecommendedAction = alert | log_only

record JudgeResult =
  concealment_likely :: bool
  confidence_0_1 :: number
  evidence :: "string list"
  risk_of_false_positive :: "string list"
  recommended_action :: RecommendedAction

text \<open>\<open>LocalFallbackJudge.judge\<close>; the promise it returns always resolves, to this value.\<close>

definition LocalFallbackJudge_judge :: "ConcealmentJudgeInput \<Rightarrow> JudgeResult" where
  "LocalFallbackJudge_judge input =
     (let concealment_likely = exitWithoutCheckout input \<or> torsoRatioSpike input;
          confidence_0_1 = (if concealment_likely then 7 / 10 else 2 / 10);
          evidence = (if exitWithoutCheckout input then [''exit_without_checkout''] else [])
                     @ (if torsoRatioSpike input then [''torso_ratio_spike''] else [])
      in \<lparr> concealment_likely = concealment_likely,
           confidence_0_1 = confidence_0_1,
           evidence = evidence,
           risk_of_false_positive = [''rule-based heuristic; no visual analysis''],
           recommended_action =
             (if concealment_likely \<and> confidence_0_1 \<ge> 7 / 10 then alert else log_only) \<rparr>)"

section \<open>Exceptions and the outside world\<close>

text \<open>
  A thrown value is an instance of \<open>Error\<close> with its message, or any other value, kept as
  the string \<open>String(e)\<close> gives. A computation that may throw (or a promise that may
  reject) returns \<open>Inl\<close> of the thrown value.
\<close>

datatype js_error = Error string | Thrown string

datatype Platform = darwin | linux | other_platform

datatype VoiceBackend = local_voice | minimax

text \<open>\<open>TTSResult\<close> of lib/shoplift-alerts/minimax-tts.ts.\<close>

record TTSResult =
  tts_success :: bool
  tts_audioPath :: "string option"
  tts_fallbackUsed :: bool
  tts_error :: "string option"

text \<open>
  What the process finds around it. File-system calls, child processes, dynamic imports
  and the remote text-to-speech service are not computed here: the world says how each call
  ends. \<open>mkdir\<close>, \<open>writeFile\<close>, \<open>generateAlertAudio\<close> and the incident log are called
  more than once, so their outcome depends on the number of earlier calls.
  \<open>speech_result\<close> is the outcome of the \<open>say\<close> or \<open>espeak\<close> child process: no error
  when it closes with code 0. \<open>audio_dir\<close> is \<open>path.join(process.cwd(), "alerts", "audio")\<close>
  and \<open>iso_ts\<close> the time stamp \<open>new Date().toISOString().replace(/[:.]/g, "-").slice(0, 19)\<close>.
  The incident log (lib/shoplift-alerts/incident-log.ts) is not among the sources:
  \<open>log_result\<close> is the outcome of the promise that \<open>logSuppressed\<close> or \<open>logTriggered\<close>
  returns.
\<close>

record World =
  platform :: Platform
  audio_dir :: string
  iso_ts :: string
  clock_ms :: number
  MINIMAX_API_KEY :: "string option"
  ENABLE_MINIMAX_TTS :: "string option"
  mkdir_result :: "nat \<Rightarrow> js_error option"
  writeFile_result :: "nat \<Rightarrow> js_error option"
  speech_result :: "js_error option"
  generateAlertAudio_result :: "nat \<Rightarrow> js_error + TTSResult"
  import_result :: "string \<Rightarrow> js_error option"
  log_result :: "nat \<Rightarrow> js_error option"
  playback_result :: "js_error option"
  buildAlertText :: "string \<Rightarrow> string"
  alert_gate_env :: AlertGateEnv

datatype Effect =
    Mkdir string
  | WriteFile string
  | SpawnSpeech string
  | SpawnPlayer string
  | LogSuppressed ShopliftingEvent string
  | LogTriggered ShopliftingEvent string string
  | ConsoleError string
  | PlayAudio string

text \<open>The calls made so far, and how many of each counted kind.\<close>

record IO =
  mkdir_count :: nat
  writeFile_count :: nat
  tts_count :: nat
  log_count :: nat
  effects :: "Effect list"

definition io0 :: IO where
  "io0 = \<lparr> mkdir_count = 0, writeFile_count = 0, tts_count = 0, log_count = 0, effects = [] \<rparr>"

definition emit :: "Effect \<Rightarrow> IO \<Rightarrow> IO" where
  "emit e io = io \<lparr> effects := effects io @ [e] \<rparr>"

definition do_mkdir :: "World \<Rightarrow> string \<Rightarrow> IO \<Rightarrow> js_error option \<times> IO" where
  "do_mkdir w dir io =
     (mkdir_result w (mkdir_count io),
      emit (Mkdir dir) (io \<lparr> mkdir_count := mkdir_count io + 1 \<rparr>))"

definition do_writeFile :: "World \<Rightarrow> string \<Rightarrow> IO \<Rightarrow> js_error option \<times> IO" where
  "do_writeFile w path io =
     (writeFile_result w (writeFile_count io),
      emit (WriteFile path) (io \<lparr> writeFile_count := writeFile_count io + 1 \<rparr>))"

definition do_generateAlertAudio :: "World \<Rightarrow> IO \<Rightarrow> (js_error + TTSResult) \<times> IO" where
  "do_generateAlertAudio w io =
     (generateAlertAudio_result w (tts_count io), io \<lparr> tts_count := tts_count io + 1 \<rparr>)"

text \<open>A JavaScript string is truthy when it is defined and not empty.\<close>

definition truthy :: "string option \<Rightarrow> bool" where
  "truthy s \<longleftrightarrow> (case s of None \<Rightarrow> False | Some t \<Rightarrow> t \<noteq> [])"

definition path_join :: "string \<Rightarrow> string \<Rightarrow> string" where
  "path_join dir name = dir @ ''/'' @ name"

section \<open>Voice alert\<close>

record VoiceAlertResult =
  success :: bool
  audioPath :: "string option"
  voiceUsed :: VoiceBackend
  error :: "string option"

text \<open>\<open>e instanceof Error ? e.message : String(e)\<close>\<close>

definition error_text :: "js_error \<Rightarrow> string" where
  "error_text e = (case e of Error m \<Rightarrow> m | Thrown s \<Rightarrow> s)"

text \<open>
  \<open>writeBeepWav\<close>: creates the directory and writes the tone. The samples of the tone
  are floating-point values and are not modelled; only the two calls that can fail are.
\<close>

definition writeBeepWav :: "World \<Rightarrow> string \<Rightarrow> string \<Rightarrow> IO \<Rightarrow> (js_error + string) \<times> IO" where
  "writeBeepWav w dir fileName io =
     (case do_mkdir w dir io of
        (Some e, io1) \<Rightarrow> (Inl e, io1)
      | (None, io1) \<Rightarrow>
          let fullPath = path_join dir fileName
          in case do_writeFile w fullPath io1 of
               (Some e, io2) \<Rightarrow> (Inl e, io2)
             | (None, io2) \<Rightarrow> (Inr fullPath, io2))"

text \<open>
  \<open>playNonBlocking\<close> starts a detached player. \<open>spawn\<close> reports a missing program through
  an event of the child, later, and does not throw for a string argument.
\<close>

definition playNonBlocking :: "string \<Rightarrow> IO \<Rightarrow> IO" where
  "playNonBlocking path io = emit (SpawnPlayer path) io"

text \<open>\<open>cameraId.replace(/[^a-zA-Z0-9-_]/g, "_").slice(0, 24)\<close>\<close>

definition safe_char :: "char \<Rightarrow> bool" where
  "safe_char c \<longleftrightarrow>
     (let n = (of_char c :: nat)
      in (97 \<le> n \<and> n \<le> 122) \<or> (65 \<le> n \<and> n \<le> 90) \<or> (48 \<le> n \<and> n \<le> 57)
         \<or> c = CHR ''-'' \<or> c = CHR ''_'')"

definition safeCam :: "string \<Rightarrow> string" where
  "safeCam camId = take 24 (map (\<lambda>c. if safe_char c then c else CHR ''_'') camId)"

text \<open>
  The speech branch shared by macOS (\<open>say\<close>) and Linux (\<open>espeak\<close>): create the directory,
  run the synthesiser, start the player.
\<close>

definition speechBranch :: "World \<Rightarrow> string \<Rightarrow> IO \<Rightarrow> (js_error + VoiceAlertResult) \<times> IO" where
  "speechBranch w wavPath io =
     (case do_mkdir w (audio_dir w) io of
        (Some e, io1) \<Rightarrow> (Inl e, io1)
      | (None, io1) \<Rightarrow>
          let io2 = emit (SpawnSpeech wavPath) io1
          in case speech_result w of
               Some e \<Rightarrow> (Inl e, io2)
             | None \<Rightarrow>
                 (Inr \<lparr> success = True, audioPath = Some wavPath, voiceUsed = local_voice,
                        error = None \<rparr>,
                  playNonBlocking wavPath io2))"

definition beepBranch ::
  "World \<Rightarrow> string \<Rightarrow> string option \<Rightarrow> IO \<Rightarrow> (js_error + VoiceAlertResult) \<times> IO" where
  "beepBranch w fileName err io =
     (case writeBeepWav w (audio_dir w) fileName io of
        (Inl e, io1) \<Rightarrow> (Inl e, io1)
      | (Inr beepPath, io1) \<Rightarrow>
          (Inr \<lparr> success = True, audioPath = Some beepPath, voiceUsed = local_voice,
                 error = err \<rparr>,
           playNonBlocking beepPath io1))"

text \<open>
  \<open>LocalVoiceAlert.play\<close>. The body of the outer \<open>try\<close> comes first; on Linux a failure of
  \<open>espeak\<close> is swallowed by the inner \<open>catch\<close> and falls through to the tone. The outer
  \<open>catch\<close> writes the tone once more, and a failure there rejects the promise. (The alert
  text only reaches the argument list of the synthesiser.)
\<close>

definition LocalVoiceAlert_play ::
  "World \<Rightarrow> string \<Rightarrow> string \<Rightarrow> IO \<Rightarrow> (js_error + VoiceAlertResult) \<times> IO" where
  "LocalVoiceAlert_play w loc camId io =
     (let ts = iso_ts w;
          cam = safeCam camId;
          wavPath = path_join (audio_dir w) (ts @ ''_'' @ cam @ ''_local.wav'');
          beepName = ts @ ''_'' @ cam @ ''_beep.wav'';
          tried =
            (if platform w = darwin then speechBranch w wavPath io
             else if platform w = linux then
               (case speechBranch w wavPath io of
                  (Inr r, io1) \<Rightarrow> (Inr r, io1)
                | (Inl e, io1) \<Rightarrow> beepBranch w beepName None io1)
             else beepBranch w beepName None io)
      in case tried of
           (Inr r, io1) \<Rightarrow> (Inr r, io1)
         | (Inl e, io1) \<Rightarrow> beepBranch w beepName (Some (error_text e)) io1)"

datatype VoiceStrategy = LocalVoiceAlert | MiniMaxVoiceAlert

definition minimax_tts_enabled :: "World \<Rightarrow> bool" where
  "minimax_tts_enabled w \<longleftrightarrow>
     truthy (MINIMAX_API_KEY w) \<and>
     (ENABLE_MINIMAX_TTS w = Some ''1'' \<or> ENABLE_MINIMAX_TTS w = Some ''true'')"

definition createMiniMaxVoiceAlert :: "World \<Rightarrow> VoiceStrategy option" where
  "createMiniMaxVoiceAlert w = (if \<not> minimax_tts_enabled w then None else Some MiniMaxVoiceAlert)"

text \<open>The \<open>play\<close> of the object that \<open>createMiniMaxVoiceAlert\<close> returns.\<close>

definition MiniMaxVoiceAlert_play ::
  "World \<Rightarrow> string \<Rightarrow> string \<Rightarrow> IO \<Rightarrow> (js_error + VoiceAlertResult) \<times> IO" where
  "MiniMaxVoiceAlert_play w loc camId io =
     (case import_result w ''@/lib/shoplift-alerts/minimax-tts'' of
        Some e \<Rightarrow> LocalVoiceAlert_play w loc camId io
      | None \<Rightarrow>
          (case do_generateAlertAudio w io of
             (Inl e, io1) \<Rightarrow> LocalVoiceAlert_play w loc camId io1
           | (Inr result, io1) \<Rightarrow>
               if truthy (tts_audioPath result) then
                 (case import_result w ''@/lib/shoplift-alerts/playback'' of
                    Some e \<Rightarrow> LocalVoiceAlert_play w loc camId io1
                  | None \<Rightarrow>
                      (Inr \<lparr> success = True, audioPath = tts_audioPath result,
                             voiceUsed = (if tts_fallbackUsed result then local_voice else minimax),
                             error = tts_error result \<rparr>,
                       emit (PlayAudio (the (tts_audioPath result))) io1))
               else LocalVoiceAlert_play w loc camId io1))"

definition voice_play ::
  "VoiceStrategy \<Rightarrow> World \<Rightarrow> string \<Rightarrow> string \<Rightarrow> IO \<Rightarrow> (js_error + VoiceAlertResult) \<times> IO" where
  "voice_play v w loc camId io =
     (case v of
        LocalVoiceAlert \<Rightarrow> LocalVoiceAlert_play w loc camId io
      | MiniMaxVoiceAlert \<Rightarrow> MiniMaxVoiceAlert_play w loc camId io)"

text \<open>
  \<open>defaultVoice\<close> starts as the local voice; \<open>initVoiceAlert\<close> replaces it by the remote
  one only when that can be created.
\<close>

definition defaultVoice0 :: VoiceStrategy where
  "defaultVoice0 = LocalVoiceAlert"

definition initVoiceAlert :: "World \<Rightarrow> VoiceStrategy" where
  "initVoiceAlert w = (case createMiniMaxVoiceAlert w of Some v \<Rightarrow> v | None \<Rightarrow> LocalVoiceAlert)"

section \<open>Alert pipeline (lib/shoplift-alerts, the orchestrator)\<close>

record PipelineResult =
  triggered :: bool
  reason :: "string option"
  pr_audioPath :: "string option"
  fallbackUsed :: "bool option"

definition reason_text :: "AlertGateReason \<Rightarrow> string" where
  "reason_text r =
     (case r of
        below_threshold \<Rightarrow> ''below_threshold''
      | cooldown \<Rightarrow> ''cooldown''
      | persistence_not_met \<Rightarrow> ''persistence_not_met'')"

definition useMiniMaxTTS :: "World \<Rightarrow> bool" where
  "useMiniMaxTTS w \<longleftrightarrow>
     truthy (MINIMAX_API_KEY w) \<and>
     (ENABLE_MINIMAX_TTS w = Some ''1'' \<or> ENABLE_MINIMAX_TTS w = Some ''true'')"

text \<open>
  \<open>await logSuppressed(event, reason).catch(e => console.error(...))\<close>: the call is made,
  and a rejection is reported and goes no further.
\<close>

definition logSuppressed_reported :: "World \<Rightarrow> ShopliftingEvent \<Rightarrow> string \<Rightarrow> IO \<Rightarrow> IO" where
  "logSuppressed_reported w event r io =
     (let io1 = emit (LogSuppressed event r) (io \<lparr> log_count := log_count io + 1 \<rparr>)
      in case log_result w (log_count io) of
           None \<Rightarrow> io1
         | Some e \<Rightarrow> emit (ConsoleError ''[ShopliftPipeline] logSuppressed error:'') io1)"

definition logTriggered_reported ::
  "World \<Rightarrow> ShopliftingEvent \<Rightarrow> string \<Rightarrow> string \<Rightarrow> IO \<Rightarrow> IO" where
  "logTriggered_reported w event alertText path io =
     (let io1 = emit (LogTriggered event alertText path) (io \<lparr> log_count := log_count io + 1 \<rparr>)
      in case log_result w (log_count io) of
           None \<Rightarrow> io1
         | Some e \<Rightarrow> emit (ConsoleError ''[ShopliftPipeline] logTriggered error:'') io1)"

text \<open>\<open>await logSuppressed(event, reason).catch(() => {})\<close>: a rejection is dropped.\<close>

definition logSuppressed_silent :: "World \<Rightarrow> ShopliftingEvent \<Rightarrow> string \<Rightarrow> IO \<Rightarrow> IO" where
  "logSuppressed_silent w event r io =
     emit (LogSuppressed event r) (io \<lparr> log_count := log_count io + 1 \<rparr>)"

text \<open>
  The remote attempt between \<open>if (useMiniMaxTTS())\<close> and its \<open>catch\<close>: it yields the audio
  path and the fallback flag, which stay \<open>undefined\<close> and \<open>true\<close> when the attempt is not
  made, throws, or returns no path.
\<close>

definition remoteAttempt :: "World \<Rightarrow> IO \<Rightarrow> (string option \<times> bool) \<times> IO" where
  "remoteAttempt w io =
     (if useMiniMaxTTS w then
        (case import_result w ''./minimax-tts'' of
           Some e \<Rightarrow> ((None, True), io)
         | None \<Rightarrow>
             (case do_generateAlertAudio w io of
                (Inl e, io1) \<Rightarrow> ((None, True), io1)
              | (Inr ttsResult, io1) \<Rightarrow>
                  if truthy (tts_audioPath ttsResult)
                  then ((tts_audioPath ttsResult, tts_fallbackUsed ttsResult), io1)
                  else ((None, True), io1)))
      else ((None, True), io))"

text \<open>
  The local step under \<open>if (!audioPath)\<close>: the voice module is imported and the current
  default voice plays. Both can throw, and nothing around them inside the \<open>try\<close> catches.
\<close>

definition localStep ::
  "VoiceStrategy \<Rightarrow> World \<Rightarrow> ShopliftingEvent \<Rightarrow> (string option \<times> bool) \<Rightarrow> IO
     \<Rightarrow> (js_error + (string option \<times> bool)) \<times> IO" where
  "localStep voice w event cur io =
     (if \<not> truthy (fst cur) then
        (case import_result w ''@/lib/grocery-shoplift/voice'' of
           Some e \<Rightarrow> (Inl e, io)
         | None \<Rightarrow>
             (case voice_play voice w (location event) (ev_camera_id event) io of
                (Inl e, io1) \<Rightarrow> (Inl e, io1)
              | (Inr result, io1) \<Rightarrow>
                  (Inr (audioPath result, voiceUsed result = local_voice), io1)))
      else (Inr cur, io))"

text \<open>
  The body of the \<open>try\<close> of \<open>runShopliftAlertPipeline\<close>. \<open>Inl\<close> is an exception that
  leaves the body.
\<close>

definition pipelineTry ::
  "VoiceStrategy \<Rightarrow> World \<Rightarrow> ShopliftingEvent \<Rightarrow> IO \<times> AlertGateState
     \<Rightarrow> (js_error + PipelineResult) \<times> IO \<times> AlertGateState" where
  "pipelineTry voice w event s =
     (case s of (io, gs) \<Rightarrow>
      (case alertGate_event (alert_gate_env w) (clock_ms w) event gs of
         (NotAllowed r ev, gs1) \<Rightarrow>
           (Inr \<lparr> triggered = False, reason = Some (reason_text r), pr_audioPath = None,
                  fallbackUsed = None \<rparr>,
            logSuppressed_reported w event (reason_text r) io, gs1)
       | (Allowed ev, gs1) \<Rightarrow>
           let alertText = buildAlertText w (location event)
           in case remoteAttempt w io of
                (cur, io1) \<Rightarrow>
                  (case localStep voice w event cur io1 of
                     (Inl e, io2) \<Rightarrow> (Inl e, io2, gs1)
                   | (Inr (path, fallback), io2) \<Rightarrow>
                       if \<not> truthy path then
                         (Inr \<lparr> triggered = False, reason = Some ''voice_failed'',
                                pr_audioPath = None, fallbackUsed = None \<rparr>,
                          logSuppressed_reported w event ''voice_failed'' io2, gs1)
                       else
                         let io3 = logTriggered_reported w event alertText (the path) io2
                         in case import_result w ''./playback'' of
                              Some e \<Rightarrow> (Inl e, io3, gs1)
                            | None \<Rightarrow>
                                let io4 = emit (PlayAudio (the path)) io3;
                                    io5 = (case playback_result w of
                                             None \<Rightarrow> io4
                                           | Some e \<Rightarrow>
                                               emit (ConsoleError
                                                 ''[ShopliftPipeline] playback error:'') io4)
                                in (Inr \<lparr> triggered = True, reason = None,
                                          pr_audioPath = path, fallbackUsed = Some fallback \<rparr>,
                                    io5, gs1))))"

text \<open>
  \<open>runShopliftAlertPipeline\<close>: the body, and the \<open>catch\<close> around it, which reports the
  error, attempts a suppressed record whose reason is
  \<open>e instanceof Error ? e.message : "pipeline_error"\<close>, and returns the failure result.
\<close>

definition runShopliftAlertPipeline ::
  "VoiceStrategy \<Rightarrow> World \<Rightarrow> ShopliftingEvent \<Rightarrow> IO \<times> AlertGateState
     \<Rightarrow> (js_error + PipelineResult) \<times> IO \<times> AlertGateState" where
  "runShopliftAlertPipeline voice w event s =
     (case pipelineTry voice w event s of
        (Inr result, io, gs) \<Rightarrow> (Inr result, io, gs)
      | (Inl e, io, gs) \<Rightarrow>
          let io1 = emit (ConsoleError ''[ShopliftPipeline] unexpected error:'') io;
              io2 = logSuppressed_silent w event
                      (case e of Error m \<Rightarrow> m | Thrown v \<Rightarrow> ''pipeline_error'') io1
          in (Inr \<lparr> triggered = False, reason = Some ''pipeline_error'', pr_audioPath = None,
                    fallbackUsed = None \<rparr>,
              io2, gs))"

section \<open>Vocabulary of the statements about the tracker\<close>

text \<open>
  The record that \<open>updateTracks\<close> builds for a matched detection and the one it builds
  for a new track, the bound on a history, and a run of frames from a given store.
\<close>

definition matched_update :: "number \<Rightarrow> PersonDetection \<Rightarrow> TrackedPerson \<Rightarrow> TrackedPerson" where
  "matched_update nowMs det bt =
     \<lparr> bbox = bbox det, confidence = confidence det, track_id = track_id bt,
       bbox_history = slice_last MAX_BBOX_HISTORY (bbox_history bt @ [bbox det]),
       last_seen = nowMs, first_seen = first_seen bt \<rparr>"

definition new_track :: "number \<Rightarrow> PersonDetection \<Rightarrow> TrackerState \<Rightarrow> TrackedPerson" where
  "new_track nowMs det st =
     \<lparr> bbox = bbox det, confidence = confidence det,
       track_id = ''t'' @ decimal (nextTrackId st), bbox_history = [bbox det],
       last_seen = nowMs, first_seen = nowMs \<rparr>"

definition hist_ok :: "TrackedPerson \<Rightarrow> bool" where
  "hist_ok t \<longleftrightarrow> length (bbox_history t) \<le> MAX_BBOX_HISTORY"

definition store_ok :: "TrackerState \<Rightarrow> bool" where
  "store_ok st \<longleftrightarrow> list_all hist_ok (getActiveTracks st)"

fun tracker_run ::
  "(number \<times> PersonDetection list \<times> number option) list \<Rightarrow> TrackerState \<Rightarrow> TrackerState" where
  "tracker_run [] st = st"
| "tracker_run ((clock, dets, nowMs) # frames) st =
     tracker_run frames (snd (updateTracks clock dets nowMs st))"

section \<open>Example data\<close>

text \<open>
  A store with one track whose history is full, a detection that overlaps that track by
  one half, and two detections far from it that overlap each other by one half.
\<close>

definition ex_track :: TrackedPerson where
  "ex_track =
     \<lparr> bbox = \<lparr>x1 = 0, y1 = 0, x2 = 3, y2 = 1\<rparr>, confidence = 9 / 10, track_id = ''t1'',
       bbox_history = replicate 10 \<lparr>x1 = 0, y1 = 0, x2 = 3, y2 = 1\<rparr>,
       last_seen = 1000, first_seen = 100 \<rparr>"

definition ex_store :: TrackerState where
  "ex_store = \<lparr> activeTracks = [(''t1'', ex_track)], nextTrackId = 2 \<rparr>"

definition ex_det :: PersonDetection where
  "ex_det = \<lparr> bbox = \<lparr>x1 = 1, y1 = 0, x2 = 4, y2 = 1\<rparr>, confidence = 8 / 10 \<rparr>"

definition ex_det_far1 :: PersonDetection where
  "ex_det_far1 = \<lparr> bbox = \<lparr>x1 = 10, y1 = 10, x2 = 13, y2 = 11\<rparr>, confidence = 8 / 10 \<rparr>"

definition ex_det_far2 :: PersonDetection where
  "ex_det_far2 = \<lparr> bbox = \<lparr>x1 = 11, y1 = 10, x2 = 14, y2 = 11\<rparr>, confidence = 7 / 10 \<rparr>"

section \<open>Vocabulary of the statements about the suspicion engine\<close>





text \<open>
  Example data: a square zone of side 1 with its lower left corner at \<open>(x0, 0)\<close>, a
  tracked person with a given box and a single box of history, and an input with two
  visits to an enabled high-theft zone and one to a zone that is not configured.
\<close>

definition unit_square_at :: "number \<Rightarrow> Point list" where
  "unit_square_at x0 =
     [\<lparr>pt_x = x0, pt_y = 0\<rparr>, \<lparr>pt_x = x0 + 1, pt_y = 0\<rparr>,
      \<lparr>pt_x = x0 + 1, pt_y = 1\<rparr>, \<lparr>pt_x = x0, pt_y = 1\<rparr>]"

definition person_at :: "Bbox \<Rightarrow> TrackedPerson" where
  "person_at box =
     \<lparr> bbox = box, confidence = 9 / 10, track_id = ''t1'', bbox_history = [box],
       last_seen = 100000, first_seen = 90000 \<rparr>"


text \<open>
  A Linux host without credentials on which every call succeeds, the gate's persistence
  rule switched off, and an event for camera cam-1.
\<close>

definition ex_world :: World where
  "ex_world =
     \<lparr> platform = linux, audio_dir = ''/srv/app/alerts/audio'', iso_ts = ''2025-01-29T12-00-00'',
       clock_ms = 0, MINIMAX_API_KEY = None, ENABLE_MINIMAX_TTS = None,
       mkdir_result = (\<lambda>k. None), writeFile_result = (\<lambda>k. None), speech_result = None,
       generateAlertAudio_result = (\<lambda>k. Inl (Error ''unreachable'')),
       import_result = (\<lambda>m. None), log_result = (\<lambda>k. None), playback_result = None,
       buildAlertText = (\<lambda>l. ''Security alert. Possible shoplifting detected at '' @ l @ ''.''),
       alert_gate_env = default_alert_gate_env \<lparr> SHOPLIFT_PERSISTENCE_COUNT := EnvNumber 1 \<rparr> \<rparr>"

definition ex_event :: ShopliftingEvent where
  "ex_event =
     \<lparr> ev_camera_id = ''cam-1'', location = ''Aisle 6'', ev_confidence = 9 / 10,
       timestamp = ''2025-01-29T12:00:00.000Z'' \<rparr>"

section \<open>Properties of the intersection over union\<close>

lemma iou_same_box:
  "iou a a = (if x1 a < x2 a \<and> y1 a < y2 a then 1 else 0)"
proof (cases "x1 a < x2 a \<and> y1 a < y2 a")
  case True
  then have "0 < (x2 a - x1 a) * (y2 a - y1 a)" by simp
  with True show ?thesis
    by (simp add: iou_def Let_def max_def)
next
  case False
  then have "max 0 (x2 a - x1 a) * max 0 (y2 a - y1 a) = 0"
    by (auto simp: max_def)
  with False show ?thesis
    by (simp add: iou_def Let_def)
qed

lemma iou_disjoint_zero:
  assumes "bbox_disjoint a b"
  shows "iou a b = 0"
proof -
  from assms have
    "max 0 (min (x2 a) (x2 b) - max (x1 a) (x1 b)) *
     max 0 (min (y2 a) (y2 b) - max (y1 a) (y1 b)) = 0"
    unfolding bbox_disjoint_def by (auto simp: max_def)
  then show ?thesis
    by (simp add: iou_def Let_def)
qed

text \<open>
  C8 (as amended). The intersection over union of a box with itself is 1 exactly when
  the box has positive width and positive height (otherwise the guard on the union
  returns 0), and it is 0 for every pair of boxes without overlapping area.
\<close>

theorem iou_identical_disjoint:
  "(iou a a = 1 \<longleftrightarrow> x1 a < x2 a \<and> y1 a < y2 a) \<and> (bbox_disjoint a b \<longrightarrow> iou a b = 0)"
  by (simp add: iou_same_box iou_disjoint_zero)

theorem iou_identical_disjoint_witness:
  "iou \<lparr>x1 = 0, y1 = 0, x2 = 1, y2 = 2\<rparr> \<lparr>x1 = 0, y1 = 0, x2 = 1, y2 = 2\<rparr> = 1
   \<and> bbox_disjoint \<lparr>x1 = 0, y1 = 0, x2 = 1, y2 = 2\<rparr> \<lparr>x1 = 3, y1 = 0, x2 = 4, y2 = 2\<rparr>
   \<and> iou \<lparr>x1 = 0, y1 = 0, x2 = 1, y2 = 2\<rparr> \<lparr>x1 = 3, y1 = 0, x2 = 4, y2 = 2\<rparr> = 0"
  using iou_identical_disjoint
    [of "\<lparr>x1 = 0, y1 = 0, x2 = 1, y2 = 2\<rparr>" "\<lparr>x1 = 3, y1 = 0, x2 = 4, y2 = 2\<rparr>"]
  by (simp add: bbox_disjoint_def)

text \<open>
  C8 (as stated) fails for a box without area: a detection of zero width, compared with
  itself, scores 0 and not 1.
\<close>

theorem iou_identical_counterexample:
  "iou \<lparr>x1 = 1 / 2, y1 = 1 / 5, x2 = 1 / 2, y2 = 4 / 5\<rparr>
       \<lparr>x1 = 1 / 2, y1 = 1 / 5, x2 = 1 / 2, y2 = 4 / 5\<rparr> = 0
   \<and> iou \<lparr>x1 = 1 / 2, y1 = 1 / 5, x2 = 1 / 2, y2 = 4 / 5\<rparr>
         \<lparr>x1 = 1 / 2, y1 = 1 / 5, x2 = 1 / 2, y2 = 4 / 5\<rparr> \<noteq> 1"
  by (simp add: iou_def)

section \<open>Properties of the local concealment judge\<close>

text \<open>
  C6. The local judge finds concealment likely exactly when one of the two flags is
  set; its confidence is 0.7 then and 0.2 otherwise; it recommends an alert exactly when
  concealment is likely and the confidence is at least 0.7, and logging otherwise; and two
  inputs with the same flags get the same result.
\<close>

theorem local_judge_rule:
  "concealment_likely (LocalFallbackJudge_judge i) = (exitWithoutCheckout i \<or> torsoRatioSpike i)
   \<and> confidence_0_1 (LocalFallbackJudge_judge i) =
       (if concealment_likely (LocalFallbackJudge_judge i) then 7 / 10 else 2 / 10)
   \<and> recommended_action (LocalFallbackJudge_judge i) =
       (if concealment_likely (LocalFallbackJudge_judge i)
           \<and> confidence_0_1 (LocalFallbackJudge_judge i) \<ge> 7 / 10
        then alert else log_only)
   \<and> (exitWithoutCheckout i = exitWithoutCheckout j \<and> torsoRatioSpike i = torsoRatioSpike j
        \<longrightarrow> LocalFallbackJudge_judge i = LocalFallbackJudge_judge j)"
  by (simp add: LocalFallbackJudge_judge_def Let_def)

theorem local_judge_rule_witness:
  "exitWithoutCheckout
     \<lparr> framePaths = [], cj_location = ''Aisle 6'', cameraId = ''cam-1'', suspicionScore = 85,
       suspicionReasons = [''exit_without_checkout''], exitWithoutCheckout = True,
       torsoRatioSpike = False \<rparr>
   = exitWithoutCheckout
     \<lparr> framePaths = [''f.jpg''], cj_location = ''Exit'', cameraId = ''cam-2'', suspicionScore = 40,
       suspicionReasons = [], exitWithoutCheckout = True, torsoRatioSpike = False \<rparr>
   \<and> LocalFallbackJudge_judge
     \<lparr> framePaths = [], cj_location = ''Aisle 6'', cameraId = ''cam-1'', suspicionScore = 85,
       suspicionReasons = [''exit_without_checkout''], exitWithoutCheckout = True,
       torsoRatioSpike = False \<rparr>
   = LocalFallbackJudge_judge
     \<lparr> framePaths = [''f.jpg''], cj_location = ''Exit'', cameraId = ''cam-2'', suspicionScore = 40,
       suspicionReasons = [], exitWithoutCheckout = True, torsoRatioSpike = False \<rparr>"
  using local_judge_rule
    [of "\<lparr> framePaths = [], cj_location = ''Aisle 6'', cameraId = ''cam-1'', suspicionScore = 85,
           suspicionReasons = [''exit_without_checkout''], exitWithoutCheckout = True,
           torsoRatioSpike = False \<rparr>"
        "\<lparr> framePaths = [''f.jpg''], cj_location = ''Exit'', cameraId = ''cam-2'',
           suspicionScore = 40, suspicionReasons = [], exitWithoutCheckout = True,
           torsoRatioSpike = False \<rparr>"]
  by simp

section \<open>Properties of the alert gates\<close>

lemmas gate_defaults =
  default_gate_env_def getJudgeMinConfidence_def getCameraCooldown_def getTrackCooldown_def
  env_number_def DEFAULT_JUDGE_MIN_CONFIDENCE_def DEFAULT_CAMERA_COOLDOWN_def
  DEFAULT_TRACK_COOLDOWN_def

lemmas alert_gate_defaults =
  default_alert_gate_env_def getMinConfidence_def getCooldownSeconds_def
  getPersistenceCount_def getPersistenceWindowMs_def env_number_def DEFAULT_MIN_CONFIDENCE_def
  DEFAULT_COOLDOWN_SECONDS_def DEFAULT_PERSISTENCE_COUNT_def DEFAULT_PERSISTENCE_WINDOW_MS_def

lemma alertGate_cases:
  "alertGate env clock input st = (Reject below_confidence, st)
   \<or> alertGate env clock input st = (Reject camera_cooldown, st)
   \<or> alertGate env clock input st = (Reject track_cooldown, st)
   \<or> alertGate env clock input st =
       (Allow,
        st \<lparr> lastTriggerByCamera :=
               (lastTriggerByCamera st)
                 (gi_camera_id input \<mapsto> (case gi_now_ms input of Some t \<Rightarrow> t | None \<Rightarrow> clock)),
             lastTriggerByTrack :=
               (lastTriggerByTrack st)
                 (gi_track_id input \<mapsto> (case gi_now_ms input of Some t \<Rightarrow> t | None \<Rightarrow> clock)) \<rparr>)"
  by (simp add: alertGate_def Let_def)

text \<open>
  C10. When the gate of the tracking pipeline rejects, for any of its three reasons, the
  two maps are what they were; they change only with an admitted decision, which stores
  the time of the call under the camera and under the track.
\<close>

theorem gate_reject_keeps_state:
  "(fst (alertGate env clock input st) \<noteq> Allow \<longrightarrow> snd (alertGate env clock input st) = st)
   \<and> (fst (alertGate env clock input st) = Allow \<longrightarrow>
        snd (alertGate env clock input st) =
          st \<lparr> lastTriggerByCamera :=
                 (lastTriggerByCamera st)
                   (gi_camera_id input \<mapsto> (case gi_now_ms input of Some t \<Rightarrow> t | None \<Rightarrow> clock)),
               lastTriggerByTrack :=
                 (lastTriggerByTrack st)
                   (gi_track_id input \<mapsto> (case gi_now_ms input of Some t \<Rightarrow> t | None \<Rightarrow> clock)) \<rparr>)"
  using alertGate_cases [of env clock input st] by auto

theorem gate_reject_keeps_state_witness:
  "fst (alertGate default_gate_env 0
          \<lparr> gi_camera_id = ''cam-1'', gi_track_id = ''t1'', gi_judge_confidence_0_1 = 9 / 10,
            gi_now_ms = Some 5000 \<rparr>
          \<lparr> lastTriggerByCamera = [''cam-1'' \<mapsto> 0], lastTriggerByTrack = [''t1'' \<mapsto> 0] \<rparr>)
     \<noteq> Allow
   \<and> snd (alertGate default_gate_env 0
          \<lparr> gi_camera_id = ''cam-1'', gi_track_id = ''t1'', gi_judge_confidence_0_1 = 9 / 10,
            gi_now_ms = Some 5000 \<rparr>
          \<lparr> lastTriggerByCamera = [''cam-1'' \<mapsto> 0], lastTriggerByTrack = [''t1'' \<mapsto> 0] \<rparr>)
     = \<lparr> lastTriggerByCamera = [''cam-1'' \<mapsto> 0], lastTriggerByTrack = [''t1'' \<mapsto> 0] \<rparr>
   \<and> fst (alertGate default_gate_env 0
          \<lparr> gi_camera_id = ''cam-2'', gi_track_id = ''t2'', gi_judge_confidence_0_1 = 9 / 10,
            gi_now_ms = Some 5000 \<rparr>
          \<lparr> lastTriggerByCamera = [''cam-1'' \<mapsto> 0], lastTriggerByTrack = [''t1'' \<mapsto> 0] \<rparr>)
     = Allow
   \<and> snd (alertGate default_gate_env 0
          \<lparr> gi_camera_id = ''cam-2'', gi_track_id = ''t2'', gi_judge_confidence_0_1 = 9 / 10,
            gi_now_ms = Some 5000 \<rparr>
          \<lparr> lastTriggerByCamera = [''cam-1'' \<mapsto> 0], lastTriggerByTrack = [''t1'' \<mapsto> 0] \<rparr>)
     = \<lparr> lastTriggerByCamera = [''cam-1'' \<mapsto> 0, ''cam-2'' \<mapsto> 5000],
         lastTriggerByTrack = [''t1'' \<mapsto> 0, ''t2'' \<mapsto> 5000] \<rparr>"
  using gate_reject_keeps_state
    [of default_gate_env 0
        "\<lparr> gi_camera_id = ''cam-1'', gi_track_id = ''t1'', gi_judge_confidence_0_1 = 9 / 10,
           gi_now_ms = Some 5000 \<rparr>"
        "\<lparr> lastTriggerByCamera = [''cam-1'' \<mapsto> 0], lastTriggerByTrack = [''t1'' \<mapsto> 0] \<rparr>"]
    gate_reject_keeps_state
    [of default_gate_env 0
        "\<lparr> gi_camera_id = ''cam-2'', gi_track_id = ''t2'', gi_judge_confidence_0_1 = 9 / 10,
           gi_now_ms = Some 5000 \<rparr>"
        "\<lparr> lastTriggerByCamera = [''cam-1'' \<mapsto> 0], lastTriggerByTrack = [''t1'' \<mapsto> 0] \<rparr>"]
  by (simp add: alertGate_def gate_defaults Let_def)

text \<open>
  C1 (as amended). Under the default configuration and from the reset state, the gate of
  the tracking pipeline admits a first event for camera cam-1 at confidence 0.9, rejects a
  second one 5 seconds later with \<open>camera_cooldown\<close>, and decides the one 25 seconds after
  the first by its track: it is admitted when its track differs from the first event's, and
  rejected with \<open>track_cooldown\<close> (30 seconds by default) when it is the same track. The
  gate of the event pipeline gives allowed, \<open>cooldown\<close>, allowed for the same three events
  once its persistence rule is switched off (a count of 1).
\<close>

theorem gate_cooldown_scenario:
  "gate_run default_gate_env
     [(c1, \<lparr> gi_camera_id = ''cam-1'', gi_track_id = tr1, gi_judge_confidence_0_1 = 9 / 10,
              gi_now_ms = Some t0 \<rparr>),
      (c2, \<lparr> gi_camera_id = ''cam-1'', gi_track_id = tr2, gi_judge_confidence_0_1 = 9 / 10,
              gi_now_ms = Some (t0 + 5000) \<rparr>),
      (c3, \<lparr> gi_camera_id = ''cam-1'', gi_track_id = tr3, gi_judge_confidence_0_1 = 9 / 10,
              gi_now_ms = Some (t0 + 25000) \<rparr>)] resetGate
   = [Allow, Reject camera_cooldown, if tr3 = tr1 then Reject track_cooldown else Allow]
   \<and> alert_gate_run (default_alert_gate_env \<lparr> SHOPLIFT_PERSISTENCE_COUNT := EnvNumber 1 \<rparr>)
     [(t0, \<lparr> ev_camera_id = ''cam-1'', location = loc, ev_confidence = 9 / 10, timestamp = ts \<rparr>),
      (t0 + 5000,
       \<lparr> ev_camera_id = ''cam-1'', location = loc, ev_confidence = 9 / 10, timestamp = ts \<rparr>),
      (t0 + 25000,
       \<lparr> ev_camera_id = ''cam-1'', location = loc, ev_confidence = 9 / 10, timestamp = ts \<rparr>)]
     resetAlertGate
   = [Allowed \<lparr> ev_camera_id = ''cam-1'', location = loc, ev_confidence = 9 / 10,
                 timestamp = ts \<rparr>,
      NotAllowed cooldown
        \<lparr> ev_camera_id = ''cam-1'', location = loc, ev_confidence = 9 / 10, timestamp = ts \<rparr>,
      Allowed \<lparr> ev_camera_id = ''cam-1'', location = loc, ev_confidence = 9 / 10,
                 timestamp = ts \<rparr>]"
  by (simp add: alertGate_def gate_defaults resetGate_def alertGate_event_def
      alert_gate_defaults resetAlertGate_def Let_def)

theorem gate_cooldown_scenario_witness:
  "gate_run default_gate_env
     [(0, \<lparr> gi_camera_id = ''cam-1'', gi_track_id = ''t1'', gi_judge_confidence_0_1 = 9 / 10,
             gi_now_ms = Some 0 \<rparr>),
      (0, \<lparr> gi_camera_id = ''cam-1'', gi_track_id = ''t1'', gi_judge_confidence_0_1 = 9 / 10,
             gi_now_ms = Some (0 + 5000) \<rparr>),
      (0, \<lparr> gi_camera_id = ''cam-1'', gi_track_id = ''t2'', gi_judge_confidence_0_1 = 9 / 10,
             gi_now_ms = Some (0 + 25000) \<rparr>)] resetGate
   = [Allow, Reject camera_cooldown, Allow]"
  using gate_cooldown_scenario
    [where ?c1.0 = 0 and ?c2.0 = 0 and ?c3.0 = 0 and ?t0.0 = 0 and ?tr1.0 = "''t1''"
       and ?tr2.0 = "''t1''" and ?tr3.0 = "''t2''" and loc = "''Exit''" and ts = "[]"]
  by simp

text \<open>
  C1 (as stated) fails in both gates. With one track behind all three events, the third
  event of the tracking gate falls inside the 30 second cooldown of the track; and the gate
  of the event pipeline, whose default persistence rule wants two events within a second,
  does not admit the first event.
\<close>

theorem gate_cooldown_counterexample:
  "gate_run default_gate_env
     [(0, \<lparr> gi_camera_id = ''cam-1'', gi_track_id = ''t1'', gi_judge_confidence_0_1 = 9 / 10,
             gi_now_ms = Some 0 \<rparr>),
      (0, \<lparr> gi_camera_id = ''cam-1'', gi_track_id = ''t1'', gi_judge_confidence_0_1 = 9 / 10,
             gi_now_ms = Some 5000 \<rparr>),
      (0, \<lparr> gi_camera_id = ''cam-1'', gi_track_id = ''t1'', gi_judge_confidence_0_1 = 9 / 10,
             gi_now_ms = Some 25000 \<rparr>)] resetGate
   = [Allow, Reject camera_cooldown, Reject track_cooldown]
   \<and> alert_gate_run default_alert_gate_env
     [(0, \<lparr> ev_camera_id = ''cam-1'', location = ''Exit'', ev_confidence = 9 / 10,
             timestamp = [] \<rparr>),
      (5000, \<lparr> ev_camera_id = ''cam-1'', location = ''Exit'', ev_confidence = 9 / 10,
                timestamp = [] \<rparr>),
      (25000, \<lparr> ev_camera_id = ''cam-1'', location = ''Exit'', ev_confidence = 9 / 10,
                 timestamp = [] \<rparr>)] resetAlertGate
   = [NotAllowed persistence_not_met
        \<lparr> ev_camera_id = ''cam-1'', location = ''Exit'', ev_confidence = 9 / 10,
          timestamp = [] \<rparr>,
      NotAllowed persistence_not_met
        \<lparr> ev_camera_id = ''cam-1'', location = ''Exit'', ev_confidence = 9 / 10,
          timestamp = [] \<rparr>,
      NotAllowed persistence_not_met
        \<lparr> ev_camera_id = ''cam-1'', location = ''Exit'', ev_confidence = 9 / 10,
          timestamp = [] \<rparr>]"
  by (simp add: alertGate_def gate_defaults resetGate_def alertGate_event_def
      alert_gate_defaults resetAlertGate_def slice_last_def Let_def)

section \<open>Properties of the tracker\<close>

lemma bestTrackLoop_spec:
  "(case bestTrackLoop matched d ts (bt0, bi0) of (bt, bi) \<Rightarrow>
      bi0 \<le> bi
      \<and> (\<forall>u \<in> set ts. track_id u \<notin> matched \<longrightarrow> iou (bbox u) d \<le> bi)
      \<and> ((bt, bi) = (bt0, bi0)
          \<or> (\<exists>t \<in> set ts. bt = Some t \<and> track_id t \<notin> matched \<and> bi = iou (bbox t) d \<and> bi0 < bi)))"
proof (induction ts arbitrary: bt0 bi0)
  case Nil
  then show ?case by simp
next
  case (Cons a ts)
  show ?case
  proof (cases "track_id a \<in> matched")
    case True
    with Cons.IH [where ?bt0.0 = bt0 and ?bi0.0 = bi0] show ?thesis by (auto split: prod.splits)
  next
    case False
    show ?thesis
    proof (cases "iou (bbox a) d > bi0")
      case True
      with False Cons.IH [where ?bt0.0 = "Some a" and ?bi0.0 = "iou (bbox a) d"] show ?thesis
        by (fastforce split: prod.splits simp: Let_def)
    next
      case False2: False
      with False Cons.IH [where ?bt0.0 = bt0 and ?bi0.0 = bi0] show ?thesis
        by (fastforce split: prod.splits simp: Let_def)
    qed
  qed
qed

lemma findBestTrack_Some:
  assumes "findBestTrack matched st d = Some bt"
  shows "bt \<in> set (getActiveTracks st) \<and> track_id bt \<notin> matched
         \<and> IOU_THRESHOLD < iou (bbox bt) d
         \<and> (\<forall>u \<in> set (getActiveTracks st). track_id u \<notin> matched \<longrightarrow> iou (bbox u) d \<le> iou (bbox bt) d)"
  using assms bestTrackLoop_spec [where matched = matched and d = d and ts = "map_values (activeTracks st)" and ?bt0.0 = None and ?bi0.0 = IOU_THRESHOLD]
  by (auto simp: findBestTrack_def getActiveTracks_def split: prod.splits)

lemma findBestTrack_exists:
  assumes "t \<in> set (getActiveTracks st)" "track_id t \<notin> matched" "IOU_THRESHOLD < iou (bbox t) d"
  shows "\<exists>bt. findBestTrack matched st d = Some bt"
  using assms bestTrackLoop_spec [where matched = matched and d = d and ts = "map_values (activeTracks st)" and ?bt0.0 = None and ?bi0.0 = IOU_THRESHOLD]
  by (fastforce simp: findBestTrack_def getActiveTracks_def split: prod.splits)

lemma findBestTrack_None:
  assumes "findBestTrack matched st d = None"
  shows "\<forall>u \<in> set (getActiveTracks st). track_id u \<notin> matched \<longrightarrow> iou (bbox u) d \<le> IOU_THRESHOLD"
  using assms bestTrackLoop_spec [where matched = matched and d = d and ts = "map_values (activeTracks st)" and ?bt0.0 = None and ?bi0.0 = IOU_THRESHOLD]
  by (fastforce simp: findBestTrack_def getActiveTracks_def split: prod.splits)

lemma map_set_values_cases:
  "x \<in> set (map_values (map_set k v kvs)) \<Longrightarrow> x = v \<or> x \<in> set (map_values kvs)"
proof (induction kvs)
  case Nil
  then show ?case by (simp add: map_values_def)
next
  case (Cons p kvs)
  obtain k' v' where p: "p = (k', v')" by (cases p)
  show ?case
  proof (cases "k' = k")
    case True
    with Cons.prems p show ?thesis by (auto simp: map_values_def)
  next
    case False
    with Cons.prems p have "x = v' \<or> x \<in> set (map_values (map_set k v kvs))"
      by (auto simp: map_values_def)
    with Cons.IH p show ?thesis by (auto simp: map_values_def)
  qed
qed

lemma map_set_values_mem: "v \<in> set (map_values (map_set k v kvs))"
proof (induction kvs)
  case Nil
  then show ?case by (simp add: map_values_def)
next
  case (Cons p kvs)
  obtain k' v' where p: "p = (k', v')" by (cases p)
  with Cons.IH show ?case by (cases "k' = k") (auto simp: map_values_def)
qed

lemma slice_last_length: "length (slice_last n xs) = min n (length xs)"
  by (auto simp: slice_last_def)

lemma slice_last_suffix: "suffix (slice_last n xs) xs"
  by (simp add: slice_last_def suffix_drop)

lemma trackStep_matched:
  assumes "findBestTrack matched st (bbox det) = Some bt"
  shows "trackStep nowMs det (matched, result, st) =
           (insert (track_id bt) matched, result @ [matched_update nowMs det bt],
            st \<lparr> activeTracks :=
                   map_set (track_id bt) (matched_update nowMs det bt) (activeTracks st) \<rparr>)"
  using assms by (simp add: trackStep_def matched_update_def Let_def)

lemma trackStep_unmatched:
  assumes "findBestTrack matched st (bbox det) = None"
  shows "trackStep nowMs det (matched, result, st) =
           (matched, result @ [new_track nowMs det st],
            st \<lparr> activeTracks :=
                   map_set (''t'' @ decimal (nextTrackId st)) (new_track nowMs det st)
                     (activeTracks st),
                 nextTrackId := nextTrackId st + 1 \<rparr>)"
  using assms by (simp add: trackStep_def new_track_def Let_def)

lemma hist_ok_matched_update: "hist_ok (matched_update nowMs det bt)"
  by (simp add: hist_ok_def matched_update_def slice_last_length)

lemma hist_ok_new_track: "hist_ok (new_track nowMs det st)"
  by (simp add: hist_ok_def new_track_def MAX_BBOX_HISTORY_def)

lemma store_ok_map_set:
  assumes "store_ok st" "hist_ok v"
  shows "store_ok (st \<lparr> activeTracks := map_set k v (activeTracks st) \<rparr>)"
  using assms map_set_values_cases [of _ k v "activeTracks st"]
  by (auto simp: store_ok_def getActiveTracks_def list_all_iff)

lemma store_ok_nextTrackId [simp]: "store_ok (st \<lparr> nextTrackId := n \<rparr>) = store_ok st"
  by (simp add: store_ok_def getActiveTracks_def)

lemma trackStep_preserves:
  assumes "trackStep nowMs det (matched, result, st) = (matched', result', st')"
  shows "(store_ok st \<longrightarrow> store_ok st') \<and> (list_all hist_ok result \<longrightarrow> list_all hist_ok result')"
proof (cases "findBestTrack matched st (bbox det)")
  case None
  from assms trackStep_unmatched [OF None, of nowMs result]
  have r: "result' = result @ [new_track nowMs det st]"
    and s: "st' = (st \<lparr> activeTracks :=
                   map_set (''t'' @ decimal (nextTrackId st)) (new_track nowMs det st)
                     (activeTracks st) \<rparr>) \<lparr> nextTrackId := nextTrackId st + 1 \<rparr>"
    by simp_all
  from r have "list_all hist_ok result \<longrightarrow> list_all hist_ok result'"
    by (simp add: hist_ok_new_track)
  moreover have "store_ok st \<longrightarrow> store_ok st'"
    unfolding s store_ok_nextTrackId
    using store_ok_map_set [OF _ hist_ok_new_track] by blast
  ultimately show ?thesis by blast
next
  case (Some bt)
  from assms trackStep_matched [OF Some, of nowMs result]
  have r: "result' = result @ [matched_update nowMs det bt]"
    and s: "st' = st \<lparr> activeTracks :=
                   map_set (track_id bt) (matched_update nowMs det bt) (activeTracks st) \<rparr>"
    by simp_all
  from r have "list_all hist_ok result \<longrightarrow> list_all hist_ok result'"
    by (simp add: hist_ok_matched_update)
  moreover have "store_ok st \<longrightarrow> store_ok st'"
    unfolding s using store_ok_map_set [OF _ hist_ok_matched_update] by blast
  ultimately show ?thesis by blast
qed

lemma trackLoop_preserves:
  assumes "trackLoop nowMs dets (matched, result, st) = (matched', result', st')"
  shows "(store_ok st \<longrightarrow> store_ok st') \<and> (list_all hist_ok result \<longrightarrow> list_all hist_ok result')"
  using assms
proof (induction dets arbitrary: matched result st)
  case Nil
  then show ?case by simp
next
  case (Cons det dets)
  obtain m1 r1 s1 where step: "trackStep nowMs det (matched, result, st) = (m1, r1, s1)"
    by (cases "trackStep nowMs det (matched, result, st)") auto
  with Cons.prems have "trackLoop nowMs dets (m1, r1, s1) = (matched', result', st')" by simp
  from Cons.IH [OF this] trackStep_preserves [OF step] show ?case by blast
qed

lemma updateTracks_preserves:
  "(store_ok st \<longrightarrow> store_ok (snd (updateTracks clock dets nowMs st)))
   \<and> list_all hist_ok (fst (updateTracks clock dets nowMs st))"
proof -
  define now where "now = (case nowMs of Some t \<Rightarrow> t | None \<Rightarrow> clock)"
  obtain m r s where loop: "trackLoop now dets ({}, [], st) = (m, r, s)"
    by (cases "trackLoop now dets ({}, [], st)") auto
  from trackLoop_preserves [OF loop] loop show ?thesis
    by (simp add: updateTracks_def now_def Let_def)
qed

lemma tracker_run_store_ok: "store_ok st \<Longrightarrow> store_ok (tracker_run frames st)"
proof (induction frames arbitrary: st)
  case Nil
  then show ?case by simp
next
  case (Cons f frames)
  obtain clock dets nowMs where f: "f = (clock, dets, nowMs)" by (cases f)
  from Cons.prems updateTracks_preserves [of st clock dets nowMs]
  have "store_ok (snd (updateTracks clock dets nowMs st))" by blast
  from Cons.IH [OF this] f show ?case by simp
qed

lemma store_ok_reset: "store_ok resetTracks"
  by (simp add: store_ok_def resetTracks_def getActiveTracks_def map_values_def)

lemma matched_history_fifo:
  "suffix (bbox_history (matched_update nowMs det bt)) (bbox_history bt @ [bbox det])
   \<and> length (bbox_history (matched_update nowMs det bt)) = min 10 (length (bbox_history bt) + 1)"
proof -
  have h: "bbox_history (matched_update nowMs det bt) =
             slice_last 10 (bbox_history bt @ [bbox det])"
    by (simp add: matched_update_def MAX_BBOX_HISTORY_def)
  have s: "suffix (slice_last 10 (bbox_history bt @ [bbox det])) (bbox_history bt @ [bbox det])"
    by (rule slice_last_suffix)
  have l: "length (slice_last 10 (bbox_history bt @ [bbox det])) =
             min 10 (length (bbox_history bt) + 1)"
    by (simp add: slice_last_length)
  show ?thesis unfolding h using s l by blast
qed

text \<open>
  C9. No history is longer than 10: the empty store satisfies the bound, every call of
  \<open>updateTracks\<close> keeps it for the store and returns only tracks within it, so it holds
  after any run of frames from the reset state. For a matched detection the new history is
  the end of the old history followed by the new box, cut to the 10 most recent entries:
  the oldest ones are dropped first.
\<close>

theorem bbox_history_bounded:
  "store_ok resetTracks
   \<and> (store_ok st \<longrightarrow> store_ok (snd (updateTracks clock dets nowMs st)))
   \<and> list_all hist_ok (fst (updateTracks clock dets nowMs st))
   \<and> store_ok (tracker_run frames resetTracks)
   \<and> (findBestTrack matched st (bbox det) = Some bt \<longrightarrow>
        (\<exists>upd. trackStep now det (matched, result, st) =
                 (insert (track_id bt) matched, result @ [upd],
                  st \<lparr> activeTracks := map_set (track_id bt) upd (activeTracks st) \<rparr>)
               \<and> suffix (bbox_history upd) (bbox_history bt @ [bbox det])
               \<and> length (bbox_history upd) = min 10 (length (bbox_history bt) + 1)))"
  using store_ok_reset updateTracks_preserves [of st clock dets nowMs]
    tracker_run_store_ok [OF store_ok_reset, of frames]
    trackStep_matched [of matched st det bt now result]
    matched_history_fifo [of now det bt]
  by blast

lemma second_frame_keeps_track:
  assumes none: "findBestTrack {} st (bbox d1) = None"
    and half: "iou (bbox d1) (bbox d2) = 1 / 2"
    and others: "\<forall>u \<in> set (getActiveTracks st). iou (bbox u) (bbox d2) < 1 / 2"
  shows "\<exists>T1 st1 T2 st2.
           updateTracks c1 [d1] n1 st = ([T1], st1)
           \<and> updateTracks c2 [d2] n2 st1 = ([T2], st2)
           \<and> track_id T1 = ''t'' @ decimal (nextTrackId st)
           \<and> track_id T2 = track_id T1 \<and> first_seen T2 = first_seen T1
           \<and> bbox T2 = bbox d2 \<and> nextTrackId st2 = nextTrackId st1"
proof -
  define now1 where "now1 = (case n1 of Some t \<Rightarrow> t | None \<Rightarrow> c1)"
  define now2 where "now2 = (case n2 of Some t \<Rightarrow> t | None \<Rightarrow> c2)"
  define T1 where "T1 = new_track now1 d1 st"
  define st1 where "st1 = st \<lparr> activeTracks := map_set (''t'' @ decimal (nextTrackId st)) T1 (activeTracks st),
                 nextTrackId := nextTrackId st + 1 \<rparr>"
  have u1: "updateTracks c1 [d1] n1 st = ([T1], st1)"
    using trackStep_unmatched [OF none, of now1 "[]"]
    by (simp add: updateTracks_def now1_def T1_def st1_def Let_def)
  have vals: "getActiveTracks st1 = map_values (map_set (''t'' @ decimal (nextTrackId st)) T1 (activeTracks st))"
    by (simp add: st1_def getActiveTracks_def)
  have mem: "T1 \<in> set (getActiveTracks st1)"
    unfolding vals by (rule map_set_values_mem)
  have iouT1: "iou (bbox T1) (bbox d2) = 1 / 2"
    using half by (simp add: T1_def new_track_def)
  then have "IOU_THRESHOLD < iou (bbox T1) (bbox d2)"
    by (simp add: IOU_THRESHOLD_def)
  from findBestTrack_exists [OF mem _ this, of "{}"]
  obtain bt where bt: "findBestTrack {} st1 (bbox d2) = Some bt" by auto
  from findBestTrack_Some [OF bt] mem
  have btmem: "bt \<in> set (getActiveTracks st1)" and ge: "iou (bbox T1) (bbox d2) \<le> iou (bbox bt) (bbox d2)"
    by auto
  from btmem have "bt \<in> set (map_values (map_set (''t'' @ decimal (nextTrackId st)) T1 (activeTracks st)))"
    by (simp add: vals)
  then have "bt = T1 \<or> bt \<in> set (map_values (activeTracks st))"
    by (rule map_set_values_cases)
  then have "bt = T1 \<or> bt \<in> set (getActiveTracks st)"
    by (simp add: getActiveTracks_def)
  with others ge iouT1 have eq: "bt = T1" by force
  define T2 where "T2 = matched_update now2 d2 T1"
  define st2 where "st2 = st1 \<lparr> activeTracks := map_set (track_id T1) T2 (activeTracks st1) \<rparr>"
  have u2: "updateTracks c2 [d2] n2 st1 = ([T2], st2)"
    using trackStep_matched [OF bt, of now2 "[]"] eq
    by (simp add: updateTracks_def now2_def T2_def st2_def Let_def)
  have "track_id T1 = ''t'' @ decimal (nextTrackId st)" by (simp add: T1_def new_track_def)
  moreover have "track_id T2 = track_id T1" "first_seen T2 = first_seen T1" "bbox T2 = bbox d2"
    by (simp_all add: T2_def matched_update_def)
  moreover have "nextTrackId st2 = nextTrackId st1" by (simp add: st2_def)
  ultimately show ?thesis using u1 u2 by blast
qed

text \<open>
  C4. Whenever some unmatched active track overlaps a detection by more than 0.3, the
  detection is matched to the unmatched active track of greatest overlap: the returned and
  stored track keeps that track's \<open>track_id\<close> and \<open>first_seen\<close>, takes the detection's
  box and confidence and the time of the call, and appends the box to the history; no new
  id is minted. In particular, when a frame with the single detection D1 creates a track
  and the next frame brings the single detection D2 with an overlap of one half with D1
  (and less with every older track), the track returned for D2 carries the id and
  \<open>first_seen\<close> of the track created for D1.
\<close>

theorem matched_detection_keeps_identity:
  "(t \<in> set (getActiveTracks st) \<and> track_id t \<notin> matched
      \<and> IOU_THRESHOLD < iou (bbox t) (bbox det) \<longrightarrow>
    (\<exists>bt. bt \<in> set (getActiveTracks st) \<and> track_id bt \<notin> matched
          \<and> IOU_THRESHOLD < iou (bbox bt) (bbox det)
          \<and> (\<forall>u \<in> set (getActiveTracks st).
                 track_id u \<notin> matched \<longrightarrow> iou (bbox u) (bbox det) \<le> iou (bbox bt) (bbox det))
          \<and> trackStep nowMs det (matched, result, st) =
              (insert (track_id bt) matched,
               result @ [\<lparr> bbox = bbox det, confidence = confidence det,
                            track_id = track_id bt,
                            bbox_history = slice_last 10 (bbox_history bt @ [bbox det]),
                            last_seen = nowMs, first_seen = first_seen bt \<rparr>],
               st \<lparr> activeTracks :=
                      map_set (track_id bt)
                        \<lparr> bbox = bbox det, confidence = confidence det,
                          track_id = track_id bt,
                          bbox_history = slice_last 10 (bbox_history bt @ [bbox det]),
                          last_seen = nowMs, first_seen = first_seen bt \<rparr>
                        (activeTracks st) \<rparr>)))
   \<and> (findBestTrack {} st (bbox d1) = None \<and> iou (bbox d1) (bbox d2) = 1 / 2
        \<and> (\<forall>u \<in> set (getActiveTracks st). iou (bbox u) (bbox d2) < 1 / 2) \<longrightarrow>
       (\<exists>T1 st1 T2 st2.
           updateTracks c1 [d1] n1 st = ([T1], st1)
           \<and> updateTracks c2 [d2] n2 st1 = ([T2], st2)
           \<and> track_id T1 = ''t'' @ decimal (nextTrackId st)
           \<and> track_id T2 = track_id T1 \<and> first_seen T2 = first_seen T1
           \<and> bbox T2 = bbox d2 \<and> nextTrackId st2 = nextTrackId st1))"
proof (intro conjI impI)
  assume a: "t \<in> set (getActiveTracks st) \<and> track_id t \<notin> matched
      \<and> IOU_THRESHOLD < iou (bbox t) (bbox det)"
  then obtain bt where bt: "findBestTrack matched st (bbox det) = Some bt"
    using findBestTrack_exists [of t st matched "bbox det"] by blast
  from findBestTrack_Some [OF bt] trackStep_matched [OF bt, of nowMs result]
  show "\<exists>bt. bt \<in> set (getActiveTracks st) \<and> track_id bt \<notin> matched
          \<and> IOU_THRESHOLD < iou (bbox bt) (bbox det)
          \<and> (\<forall>u \<in> set (getActiveTracks st).
                 track_id u \<notin> matched \<longrightarrow> iou (bbox u) (bbox det) \<le> iou (bbox bt) (bbox det))
          \<and> trackStep nowMs det (matched, result, st) =
              (insert (track_id bt) matched,
               result @ [\<lparr> bbox = bbox det, confidence = confidence det,
                            track_id = track_id bt,
                            bbox_history = slice_last 10 (bbox_history bt @ [bbox det]),
                            last_seen = nowMs, first_seen = first_seen bt \<rparr>],
               st \<lparr> activeTracks :=
                      map_set (track_id bt)
                        \<lparr> bbox = bbox det, confidence = confidence det,
                          track_id = track_id bt,
                          bbox_history = slice_last 10 (bbox_history bt @ [bbox det]),
                          last_seen = nowMs, first_seen = first_seen bt \<rparr>
                        (activeTracks st) \<rparr>)"
    by (intro exI [of _ bt]) (simp add: matched_update_def MAX_BBOX_HISTORY_def)
next
  assume "findBestTrack {} st (bbox d1) = None \<and> iou (bbox d1) (bbox d2) = 1 / 2
        \<and> (\<forall>u \<in> set (getActiveTracks st). iou (bbox u) (bbox d2) < 1 / 2)"
  then show "\<exists>T1 st1 T2 st2.
           updateTracks c1 [d1] n1 st = ([T1], st1)
           \<and> updateTracks c2 [d2] n2 st1 = ([T2], st2)
           \<and> track_id T1 = ''t'' @ decimal (nextTrackId st)
           \<and> track_id T2 = track_id T1 \<and> first_seen T2 = first_seen T1
           \<and> bbox T2 = bbox d2 \<and> nextTrackId st2 = nextTrackId st1"
    using second_frame_keeps_track [of st d1 d2 c1 n1 c2 n2] by blast
qed


lemmas tracker_eval =
  updateTracks_def trackStep_def findBestTrack_def getActiveTracks_def map_values_def iou_def
  IOU_THRESHOLD_def MAX_BBOX_HISTORY_def slice_last_def Let_def resetTracks_def decimal.simps
  digit_char_def ex_track_def ex_store_def ex_det_def ex_det_far1_def ex_det_far2_def

theorem bbox_history_bounded_witness:
  "store_ok ex_store
   \<and> store_ok (snd (updateTracks 0 [ex_det] (Some 2000) ex_store))
   \<and> findBestTrack {} ex_store (bbox ex_det) = Some ex_track
   \<and> map bbox_history (fst (snd (trackStep 2000 ex_det ({}, [], ex_store)))) =
       [replicate 9 \<lparr>x1 = 0, y1 = 0, x2 = 3, y2 = 1\<rparr> @ [\<lparr>x1 = 1, y1 = 0, x2 = 4, y2 = 1\<rparr>]]"
  using bbox_history_bounded [of ex_store 0 "[ex_det]" "Some 2000" "[]" "{}" ex_det ex_track 2000 "[]"]
  by (simp add: store_ok_def hist_ok_def tracker_eval)

theorem matched_detection_keeps_identity_witness:
  "ex_track \<in> set (getActiveTracks ex_store) \<and> track_id ex_track \<notin> {}
   \<and> IOU_THRESHOLD < iou (bbox ex_track) (bbox ex_det)
   \<and> fst (snd (trackStep 2000 ex_det ({}, [], ex_store))) =
       [\<lparr> bbox = \<lparr>x1 = 1, y1 = 0, x2 = 4, y2 = 1\<rparr>, confidence = 4 / 5, track_id = ''t1'',
          bbox_history =
            replicate 9 \<lparr>x1 = 0, y1 = 0, x2 = 3, y2 = 1\<rparr> @ [\<lparr>x1 = 1, y1 = 0, x2 = 4, y2 = 1\<rparr>],
          last_seen = 2000, first_seen = 100 \<rparr>]
   \<and> findBestTrack {} ex_store (bbox ex_det_far1) = None
   \<and> iou (bbox ex_det_far1) (bbox ex_det_far2) = 1 / 2
   \<and> list_all (\<lambda>u. iou (bbox u) (bbox ex_det_far2) < 1 / 2) (getActiveTracks ex_store)
   \<and> map track_id (fst (updateTracks 0 [ex_det_far1] (Some 1000) ex_store)) = [''t2'']
   \<and> map track_id
         (fst (updateTracks 0 [ex_det_far2] (Some 2000)
                 (snd (updateTracks 0 [ex_det_far1] (Some 1000) ex_store)))) = [''t2'']"
  using matched_detection_keeps_identity
    [of ex_track ex_store "{}" ex_det 2000 "[]" ex_det_far1 ex_det_far2 0 "Some 1000" 0 "Some 2000"]
  by (simp add: tracker_eval)

section \<open>Properties of the suspicion engine\<close>



lemma computeSuspicion_fields:
  "exit_without_checkout (computeSuspicion env input fw fh) =
     exitTerm env input (whichZone (bboxCenter (bbox (track input)) fw fh) (zones input))"
  "torso_ratio_spike (computeSuspicion env input fw fh) = torsoTerm input"
  "dwell_high_theft_sec (computeSuspicion env input fw fh) = Math_round (dwellRaw input * 10) / 10"
  by (simp_all add: computeSuspicion_def Let_def split: prod.splits)

lemma computeSuspicion_score:
  "suspicion_score (computeSuspicion env input fw fh) =
     (if exit_without_checkout (computeSuspicion env input fw fh) then 40 else 0)
     + (if getDwellSeconds env \<le> dwellRaw input then 25 else 0)
     + (if torso_ratio_spike (computeSuspicion env input fw fh) then 20 else 0)"
  by (simp add: computeSuspicion_def Let_def EXIT_WITHOUT_CHECKOUT_BONUS_def
      DWELL_HIGH_THEFT_BONUS_def TORSO_RATIO_SPIKE_BONUS_def split: prod.splits)

lemma computeSuspicion_reasons:
  "reasons (computeSuspicion env input fw fh) =
     (if exit_without_checkout (computeSuspicion env input fw fh) then [''exit_without_checkout''] else [])
     @ (if getDwellSeconds env \<le> dwellRaw input
        then [''dwell_high_theft_'' @ toFixed0 (dwellRaw input) @ ''s''] else [])
     @ (if torso_ratio_spike (computeSuspicion env input fw fh) then [''torso_ratio_spike''] else [])"
  by (simp add: computeSuspicion_def Let_def split: prod.splits)

lemmas suspicion_eval =
  computeSuspicion_def exitTerm_def dwellRaw_def torsoTerm_def bboxCenter_def
  isPointInPolygon_def edge_crossed_def unit_square_at_def person_at_def
  default_suspicion_env_def getDwellSeconds_def getCheckoutMemorySeconds_def env_number_def
  DEFAULT_DWELL_SECONDS_def DEFAULT_CHECKOUT_MEMORY_SECONDS_def TORSO_RATIO_WINDOW_def
  EXIT_WITHOUT_CHECKOUT_BONUS_def DWELL_HIGH_THEFT_BONUS_def TORSO_RATIO_SPIKE_BONUS_def
  Math_round_def Let_def upt_conv_Cons floor_eq_iff

lemma exit_without_checkout_first_exit:
  assumes "whichZone (bboxCenter (bbox (track input)) fw fh) (zones input) = Some cz"
    and "find (\<lambda>z. zone_cfg_type z = exit \<and> enabled z \<noteq> Some False) (zones input) = Some ez"
    and "zone_cfg_id cz = zone_cfg_id ez"
    and "\<not> list_ex (\<lambda>h. zone_type h = checkout
                        \<and> entered_ms h \<ge> now_ms input - getCheckoutMemorySeconds env * 1000)
             (zone_history input)"
  shows "exit_without_checkout (computeSuspicion env input fw fh)
         \<and> ''exit_without_checkout'' \<in> set (reasons (computeSuspicion env input fw fh))
         \<and> suspicion_score (computeSuspicion env input fw fh) \<ge> 40"
proof -
  from assms have e: "exit_without_checkout (computeSuspicion env input fw fh)"
    by (simp add: computeSuspicion_fields exitTerm_def Let_def)
  then show ?thesis
    by (simp add: computeSuspicion_reasons computeSuspicion_score)
qed

lemma exit_without_checkout_iff:
  "exit_without_checkout (computeSuspicion env input fw fh) \<longleftrightarrow>
     (\<exists>cz ez. whichZone (bboxCenter (bbox (track input)) fw fh) (zones input) = Some cz
        \<and> find (\<lambda>z. zone_cfg_type z = exit \<and> enabled z \<noteq> Some False) (zones input) = Some ez
        \<and> zone_cfg_id cz = zone_cfg_id ez
        \<and> \<not> list_ex (\<lambda>h. zone_type h = checkout
                        \<and> entered_ms h \<ge> now_ms input - getCheckoutMemorySeconds env * 1000)
             (zone_history input))"
  by (auto simp: computeSuspicion_fields exitTerm_def Let_def split: option.splits)

text \<open>
  C2. The claim fails where the store has two exits: a person whose box centre lies in
  the second enabled exit zone, with no checkout visit on record, is classified into an
  enabled zone of type \<open>exit\<close>, yet \<open>computeSuspicion\<close> compares the zone's id with the
  first enabled exit zone only and returns no flag, no reason and a score of 0.
\<close>

theorem exit_second_zone_not_flagged:
  "whichZone
     (bboxCenter (bbox (person_at \<lparr>x1 = 12 / 5, y1 = 1 / 5, x2 = 13 / 5, y2 = 4 / 5\<rparr>)) None None)
     [\<lparr> zone_cfg_id = ''exit-a'', zone_cfg_name = ''Main exit'', zone_cfg_type = exit,
         polygon = unit_square_at 0, enabled = Some True \<rparr>,
      \<lparr> zone_cfg_id = ''exit-b'', zone_cfg_name = ''Side exit'', zone_cfg_type = exit,
         polygon = unit_square_at 2, enabled = Some True \<rparr>]
   = Some \<lparr> zone_cfg_id = ''exit-b'', zone_cfg_name = ''Side exit'', zone_cfg_type = exit,
            polygon = unit_square_at 2, enabled = Some True \<rparr>
   \<and> computeSuspicion default_suspicion_env
       \<lparr> track = person_at \<lparr>x1 = 12 / 5, y1 = 1 / 5, x2 = 13 / 5, y2 = 4 / 5\<rparr>,
         zones =
           [\<lparr> zone_cfg_id = ''exit-a'', zone_cfg_name = ''Main exit'', zone_cfg_type = exit,
               polygon = unit_square_at 0, enabled = Some True \<rparr>,
            \<lparr> zone_cfg_id = ''exit-b'', zone_cfg_name = ''Side exit'', zone_cfg_type = exit,
               polygon = unit_square_at 2, enabled = Some True \<rparr>],
         zone_history = [], now_ms = 100000 \<rparr>
       None None
   = \<lparr> suspicion_score = 0, reasons = [], exit_without_checkout = False,
       dwell_high_theft_sec = 0, torso_ratio_spike = False \<rparr>"
  by (simp add: suspicion_eval)




section \<open>Properties of the voice alert\<close>

lemmas voice_defs =
  LocalVoiceAlert_play_def speechBranch_def beepBranch_def writeBeepWav_def do_mkdir_def
  do_writeFile_def playNonBlocking_def emit_def path_join_def truthy_def Let_def

lemma local_play_succeeds:
  assumes "\<forall>k. mkdir_result w k = None" "\<forall>k. writeFile_result w k = None"
  shows "\<exists>r. fst (LocalVoiceAlert_play w loc cam io) = Inr r \<and> success r
             \<and> voiceUsed r = local_voice \<and> truthy (audioPath r)"
  using assms
  by (cases "platform w"; cases "speech_result w") (simp_all add: voice_defs)

lemma local_play_ignores_credentials:
  "fst (LocalVoiceAlert_play (w \<lparr> MINIMAX_API_KEY := k, ENABLE_MINIMAX_TTS := e \<rparr>) loc cam io)
   = fst (LocalVoiceAlert_play w loc cam io)"
  by (simp add: voice_defs split: prod.splits option.splits sum.splits)

lemma no_key_local: "\<not> truthy (MINIMAX_API_KEY w) \<Longrightarrow> initVoiceAlert w = LocalVoiceAlert"
  by (simp add: initVoiceAlert_def createMiniMaxVoiceAlert_def minimax_tts_enabled_def)

text \<open>
  C7. Without an API key, the voice in use is the local one, before and after
  \<open>initVoiceAlert\<close>, and every call of its \<open>play\<close> returns \<open>success = true\<close> with the
  local backend and an audio path, whatever the platform and whether or not the speech
  synthesiser works, provided that creating the directory and writing the file succeed.
  The outcome of the local voice does not depend on the credentials at all.
\<close>

theorem voice_local_always_succeeds:
  "(\<not> truthy (MINIMAX_API_KEY w) \<and> (\<forall>k. mkdir_result w k = None)
     \<and> (\<forall>k. writeFile_result w k = None) \<longrightarrow>
   initVoiceAlert w = LocalVoiceAlert \<and> defaultVoice0 = LocalVoiceAlert
   \<and> (\<exists>r. fst (voice_play (initVoiceAlert w) w loc cam io) = Inr r \<and> success r
            \<and> voiceUsed r = local_voice \<and> truthy (audioPath r))
   \<and> (\<exists>r. fst (voice_play defaultVoice0 w loc cam io) = Inr r \<and> success r
            \<and> voiceUsed r = local_voice \<and> truthy (audioPath r)))
   \<and> fst (voice_play LocalVoiceAlert
            (w \<lparr> MINIMAX_API_KEY := key, ENABLE_MINIMAX_TTS := flag \<rparr>) loc cam io)
       = fst (voice_play LocalVoiceAlert w loc cam io)"
  using local_play_succeeds [of w loc cam io] no_key_local [of w]
    local_play_ignores_credentials [where w = w and k = key and e = flag and loc = loc and cam = cam and io = io]
  by (simp add: voice_play_def defaultVoice0_def)

theorem voice_local_always_succeeds_witness:
  "\<not> truthy (MINIMAX_API_KEY (ex_world \<lparr> speech_result := Some (Error ''espeak exited 1'') \<rparr>))
   \<and> (\<forall>k. mkdir_result (ex_world \<lparr> speech_result := Some (Error ''espeak exited 1'') \<rparr>) k
            = None)
   \<and> (\<forall>k. writeFile_result (ex_world \<lparr> speech_result := Some (Error ''espeak exited 1'') \<rparr>) k
            = None)
   \<and> initVoiceAlert (ex_world \<lparr> speech_result := Some (Error ''espeak exited 1'') \<rparr>)
       = LocalVoiceAlert
   \<and> fst (voice_play LocalVoiceAlert
            (ex_world \<lparr> speech_result := Some (Error ''espeak exited 1'') \<rparr>)
            ''Aisle 6'' ''cam 1/x'' io0)
       = Inr \<lparr> success = True,
               audioPath = Some ''/srv/app/alerts/audio/2025-01-29T12-00-00_cam_1_x_beep.wav'',
               voiceUsed = local_voice, error = None \<rparr>"
  using voice_local_always_succeeds
    [where w = "ex_world \<lparr> speech_result := Some (Error ''espeak exited 1'') \<rparr>"
       and loc = "''Aisle 6''" and cam = "''cam 1/x''" and io = io0
       and key = None and flag = None]
  by (simp add: ex_world_def voice_play_def voice_defs safeCam_def safe_char_def io0_def)

section \<open>Properties of the alert pipeline\<close>

lemma run_returns: "\<exists>r. fst (runShopliftAlertPipeline voice w event s) = Inr r"
proof (cases "pipelineTry voice w event s")
  case (fields res io gs)
  then show ?thesis
    by (cases res) (simp_all add: runShopliftAlertPipeline_def Let_def)
qed

lemma run_catch:
  assumes "pipelineTry voice w event s = (Inl e, io, gs)"
  shows "runShopliftAlertPipeline voice w event s =
           (Inr \<lparr> triggered = False, reason = Some ''pipeline_error'', pr_audioPath = None,
                  fallbackUsed = None \<rparr>,
            io \<lparr> log_count := log_count io + 1,
                 effects := effects io @
                   [ConsoleError ''[ShopliftPipeline] unexpected error:'',
                    LogSuppressed event
                      (case e of Error m \<Rightarrow> m | Thrown v \<Rightarrow> ''pipeline_error'')] \<rparr>,
            gs)"
  using assms
  by (simp add: runShopliftAlertPipeline_def logSuppressed_silent_def emit_def Let_def)

lemma run_no_error:
  assumes "pipelineTry voice w event s = (Inr r, io, gs)"
  shows "runShopliftAlertPipeline voice w event s = (Inr r, io, gs)"
  using assms by (simp add: runShopliftAlertPipeline_def)

text \<open>
  C3 (as amended). For every event, voice, world and state, the pipeline returns a
  result and never an exception. When an exception leaves the body of its \<open>try\<close>, the
  pipeline reports it, attempts one suppressed record, whose reason is the message of the
  error when the thrown value is an \<open>Error\<close> and \<open>pipeline_error\<close> otherwise, leaves the
  gate as the body left it, and returns \<open>triggered = false\<close> with the reason
  \<open>pipeline_error\<close>. When no exception leaves the body, the result is the body's.
\<close>

theorem pipeline_never_raises:
  "(\<exists>r. fst (runShopliftAlertPipeline voice w event s) = Inr r)
   \<and> (pipelineTry voice w event s = (Inl e, io, gs) \<longrightarrow>
        runShopliftAlertPipeline voice w event s =
          (Inr \<lparr> triggered = False, reason = Some ''pipeline_error'', pr_audioPath = None,
                 fallbackUsed = None \<rparr>,
           io \<lparr> log_count := log_count io + 1,
                effects := effects io @
                  [ConsoleError ''[ShopliftPipeline] unexpected error:'',
                   LogSuppressed event
                     (case e of Error m \<Rightarrow> m | Thrown v \<Rightarrow> ''pipeline_error'')] \<rparr>,
           gs))
   \<and> (pipelineTry voice w event s = (Inr r, io, gs) \<longrightarrow>
        runShopliftAlertPipeline voice w event s = (Inr r, io, gs))"
  using run_returns [of voice w event s] run_catch [of voice w event s e io gs]
    run_no_error [of voice w event s r io gs]
  by simp

lemmas pipeline_eval =
  runShopliftAlertPipeline_def pipelineTry_def localStep_def remoteAttempt_def
  useMiniMaxTTS_def logSuppressed_reported_def logTriggered_reported_def
  logSuppressed_silent_def reason_text_def alertGate_event_def alert_gate_defaults
  resetAlertGate_def voice_play_def voice_defs safeCam_def safe_char_def io0_def
  ex_world_def ex_event_def

theorem pipeline_never_raises_witness:
  "fst (pipelineTry LocalVoiceAlert
          (ex_world \<lparr> import_result :=
              (\<lambda>m. if m = ''./playback'' then Some (Thrown ''module not found'') else None) \<rparr>)
          ex_event (io0, resetAlertGate))
     = Inl (Thrown ''module not found'')
   \<and> fst (runShopliftAlertPipeline LocalVoiceAlert
          (ex_world \<lparr> import_result :=
              (\<lambda>m. if m = ''./playback'' then Some (Thrown ''module not found'') else None) \<rparr>)
          ex_event (io0, resetAlertGate))
     = Inr \<lparr> triggered = False, reason = Some ''pipeline_error'', pr_audioPath = None,
             fallbackUsed = None \<rparr>
   \<and> effects (fst (snd (runShopliftAlertPipeline LocalVoiceAlert
          (ex_world \<lparr> import_result :=
              (\<lambda>m. if m = ''./playback'' then Some (Thrown ''module not found'') else None) \<rparr>)
          ex_event (io0, resetAlertGate))))
     = [Mkdir ''/srv/app/alerts/audio'',
        SpawnSpeech ''/srv/app/alerts/audio/2025-01-29T12-00-00_cam-1_local.wav'',
        SpawnPlayer ''/srv/app/alerts/audio/2025-01-29T12-00-00_cam-1_local.wav'',
        LogTriggered ex_event ''Security alert. Possible shoplifting detected at Aisle 6.''
          ''/srv/app/alerts/audio/2025-01-29T12-00-00_cam-1_local.wav'',
        ConsoleError ''[ShopliftPipeline] unexpected error:'',
        LogSuppressed ex_event ''pipeline_error'']
   \<and> fst (pipelineTry LocalVoiceAlert ex_world ex_event (io0, resetAlertGate))
     = Inr \<lparr> triggered = True, reason = None,
             pr_audioPath = Some ''/srv/app/alerts/audio/2025-01-29T12-00-00_cam-1_local.wav'',
             fallbackUsed = Some True \<rparr>
   \<and> fst (runShopliftAlertPipeline LocalVoiceAlert ex_world ex_event (io0, resetAlertGate))
     = Inr \<lparr> triggered = True, reason = None,
             pr_audioPath = Some ''/srv/app/alerts/audio/2025-01-29T12-00-00_cam-1_local.wav'',
             fallbackUsed = Some True \<rparr>"
  using pipeline_never_raises
    [where voice = LocalVoiceAlert and w = ex_world and event = ex_event
       and s = "(io0, resetAlertGate)"
       and r = "\<lparr> triggered = True, reason = None,
             pr_audioPath = Some ''/srv/app/alerts/audio/2025-01-29T12-00-00_cam-1_local.wav'',
             fallbackUsed = Some True \<rparr>"
       and io = "fst (snd (pipelineTry LocalVoiceAlert ex_world ex_event (io0, resetAlertGate)))"
       and gs = "snd (snd (pipelineTry LocalVoiceAlert ex_world ex_event (io0, resetAlertGate)))"
       and e = "Thrown []"]
    pipeline_never_raises
    [where voice = LocalVoiceAlert
       and w = "ex_world \<lparr> import_result :=
              (\<lambda>m. if m = ''./playback'' then Some (Thrown ''module not found'') else None) \<rparr>"
       and event = ex_event and s = "(io0, resetAlertGate)"
       and e = "Thrown ''module not found''"
       and io = "fst (snd (pipelineTry LocalVoiceAlert
          (ex_world \<lparr> import_result :=
              (\<lambda>m. if m = ''./playback'' then Some (Thrown ''module not found'') else None) \<rparr>)
          ex_event (io0, resetAlertGate)))"
       and gs = "snd (snd (pipelineTry LocalVoiceAlert
          (ex_world \<lparr> import_result :=
              (\<lambda>m. if m = ''./playback'' then Some (Thrown ''module not found'') else None) \<rparr>)
          ex_event (io0, resetAlertGate)))"]
  by (simp add: pipeline_eval)

text \<open>
  C3 (as stated) fails on the reason of the record: on a host where the audio directory
  cannot be created, the local voice rejects with an \<open>Error\<close>, and the suppressed record
  that the pipeline attempts carries the message of that error, not \<open>pipeline_error\<close>;
  only the returned result has that reason.
\<close>

theorem pipeline_error_reason_counterexample:
  "fst (runShopliftAlertPipeline LocalVoiceAlert
          (ex_world \<lparr> mkdir_result := (\<lambda>k. Some (Error ''EACCES: permission denied, mkdir'')) \<rparr>)
          ex_event (io0, resetAlertGate))
     = Inr \<lparr> triggered = False, reason = Some ''pipeline_error'', pr_audioPath = None,
             fallbackUsed = None \<rparr>
   \<and> effects (fst (snd (runShopliftAlertPipeline LocalVoiceAlert
          (ex_world \<lparr> mkdir_result := (\<lambda>k. Some (Error ''EACCES: permission denied, mkdir'')) \<rparr>)
          ex_event (io0, resetAlertGate))))
     = [Mkdir ''/srv/app/alerts/audio'', Mkdir ''/srv/app/alerts/audio'',
        Mkdir ''/srv/app/alerts/audio'',
        ConsoleError ''[ShopliftPipeline] unexpected error:'',
        LogSuppressed ex_event ''EACCES: permission denied, mkdir'']"
  by (simp add: pipeline_eval)

end
